theory Spec2Isabelle
  imports Complex_Main
begin

unbundle bit_operations_syntax

section \<open>The PCA9685 PWM driver and the DonkeyCar motion mapper\<close>

text \<open>
  A shallow embedding of the driver classes of \<^verbatim>\<open>donkey_motor_test.py\<close>,
  \<^verbatim>\<open>demo_script.py\<close> and \<^verbatim>\<open>steering_calibration.py\<close>.

  Conventions of the embedding:
  \<^item> Python's unbounded integers are \<open>int\<close>; \<^verbatim>\<open>&\<close>, \<^verbatim>\<open>|\<close> and \<^verbatim>\<open>>>\<close> are
    \<open>AND\<close>, \<open>OR\<close> and \<open>drop_bit\<close> on \<open>int\<close> (two's complement, shift with floor),
    as in Python.
  \<^item> Python's floats are IEEE 754 doubles. A float is modelled by the real number it
    denotes, and every float operation returns the exact result rounded to the nearest
    number with a 53-bit significand, ties to even (\<open>dbl\<close> below). The exponent range
    of a double is not modelled: there is no overflow to infinity, no subnormal number
    and no NaN. \<^verbatim>\<open>int(x)\<close> on a float truncates toward zero. A numeric argument is a
    float, or a Python \<^verbatim>\<open>int\<close> that converts to a float exactly.
  \<^item> A raised exception is a value \<open>Inl e\<close>; a method that mutates \<^verbatim>\<open>self\<close> returns the
    updated object in \<open>Inr\<close>.
  \<^item> \<^verbatim>\<open>print\<close> and \<^verbatim>\<open>time.sleep\<close> have no effect on the state modelled here.
\<close>

subsection \<open>Errors and sequencing\<close>

datatype error = ZeroDivisionError | BusClosed

definition bindE :: "error + 'a \<Rightarrow> ('a \<Rightarrow> error + 'b) \<Rightarrow> error + 'b" where
  "bindE m f = (case m of Inl e \<Rightarrow> Inl e | Inr x \<Rightarrow> f x)"

text \<open>Python's \<^verbatim>\<open>int(x)\<close> for a float \<open>x\<close>: truncation toward zero.\<close>

definition py_int :: "real \<Rightarrow> int" where
  "py_int x = (if 0 \<le> x then \<lfloor>x\<rfloor> else \<lceil>x\<rceil>)"

subsection \<open>Float arithmetic\<close>

text \<open>\<open>pow2 k\<close> is \<open>2\<close> to the power \<open>k\<close>, for an integer \<open>k\<close> of either sign.\<close>

definition pow2 :: "int \<Rightarrow> real" where
  "pow2 k = (if 0 \<le> k then 2 ^ nat k else 1 / 2 ^ nat (- k))"

text \<open>
  The binary exponent of a positive real: the \<open>e\<close> with \<open>2^e \<le> x < 2^(e+1)\<close>, found by
  halving or doubling \<open>x\<close> until it lies in \<open>[1, 2)\<close>.
\<close>

function expo :: "real \<Rightarrow> int" where
  "expo x = (if x \<le> 0 then 0
             else if 2 \<le> x then expo (x / 2) + 1
             else if x < 1 then expo (x * 2) - 1
             else 0)"
  by pat_completeness auto
termination
proof (relation "measure (\<lambda>x. nat \<bar>\<lfloor>log 2 x\<rfloor>\<bar>)")
  show "wf (measure (\<lambda>x. nat \<bar>\<lfloor>log 2 x\<rfloor>\<bar>))" by simp
next
  fix x :: real
  assume "\<not> x \<le> 0" and x2: "2 \<le> x"
  then have x: "0 < x" by simp
  have "log 2 (x / 2) = log 2 x - 1" using x by (simp add: log_divide)
  moreover have "1 \<le> log 2 x" using x2 x by (simp add: le_log_iff)
  ultimately show "(x / 2, x) \<in> measure (\<lambda>x. nat \<bar>\<lfloor>log 2 x\<rfloor>\<bar>)"
    by simp
next
  fix x :: real
  assume "\<not> x \<le> 0" and "\<not> 2 \<le> x" and x1: "x < 1"
  then have x: "0 < x" by simp
  have e: "\<lfloor>log 2 (x * 2)\<rfloor> = \<lfloor>log 2 x\<rfloor> + 1" using x by (simp add: log_mult)
  have "log 2 x < 0" using x1 x by simp
  then have n: "\<lfloor>log 2 x\<rfloor> < 0" by (simp add: floor_less_iff)
  have "nat \<bar>\<lfloor>log 2 x\<rfloor> + 1\<bar> < nat \<bar>\<lfloor>log 2 x\<rfloor>\<bar>" using n by linarith
  then show "(x * 2, x) \<in> measure (\<lambda>x. nat \<bar>\<lfloor>log 2 x\<rfloor>\<bar>)"
    by (simp only: in_measure e)
qed

declare expo.simps [simp del]

text \<open>Rounding to the nearest integer, a tie going to the even neighbour.\<close>

definition round_half_even :: "real \<Rightarrow> int" where
  "round_half_even x =
     (let n = \<lfloor>x\<rfloor>; d = x - real_of_int n
      in if d < 1 / 2 then n
         else if 1 / 2 < d then n + 1
         else if even n then n else n + 1)"

text \<open>
  \<open>dbl x\<close> is the double nearest to \<open>x\<close>: for \<open>2^e \<le> \<bar>x\<bar> < 2^(e+1)\<close> the doubles are the
  multiples of \<open>2^(e-52)\<close>, and \<open>x\<close> is rounded to the nearest of them, ties to even.
  Rounding is symmetric in the sign. A float literal such as \<^verbatim>\<open>1.8\<close> denotes \<open>dbl 1.8\<close>;
  literals that are doubles already (\<^verbatim>\<open>0.5\<close>, \<^verbatim>\<open>4096.0\<close>, \<^verbatim>\<open>1000000.0\<close>) are written as
  they are.
\<close>

definition dbl_pos :: "real \<Rightarrow> real" where
  "dbl_pos x = (let u = pow2 (expo x - 52) in u * real_of_int (round_half_even (x / u)))"

definition dbl :: "real \<Rightarrow> real" where
  "dbl x = (if x = 0 then 0 else if x < 0 then - dbl_pos (- x) else dbl_pos x)"

text \<open>
  The float operations \<^verbatim>\<open>*\<close>, \<^verbatim>\<open>/\<close>, \<^verbatim>\<open>+\<close> and \<^verbatim>\<open>-\<close>. The callers of \<open>fdiv\<close> check for
  a zero divisor first, where Python raises \<^verbatim>\<open>ZeroDivisionError\<close>.
\<close>

definition fmul :: "real \<Rightarrow> real \<Rightarrow> real" where
  "fmul x y = dbl (x * y)"

definition fdiv :: "real \<Rightarrow> real \<Rightarrow> real" where
  "fdiv x y = dbl (x / y)"

definition fadd :: "real \<Rightarrow> real \<Rightarrow> real" where
  "fadd x y = dbl (x + y)"

definition fsub :: "real \<Rightarrow> real \<Rightarrow> real" where
  "fsub x y = dbl (x - y)"

subsection \<open>The bus\<close>

text \<open>
  Modelled from the spec: the Bus Register Driver. The scripts use \<^verbatim>\<open>smbus2.SMBus\<close>, a
  library that is not part of the repository. The spec describes it as raw reads and
  writes of 8-bit registers at a device address, with a handle that is released by
  \<^verbatim>\<open>close\<close>, after which no further operation is valid.

  The model is a reliable register store: \<open>regs\<close> holds, per device address and register,
  the value last passed to \<^verbatim>\<open>write_byte_data\<close> (exactly as passed, an \<open>int\<close>);
  \<open>writes\<close> is the log of all writes (address, register, value) in the order issued;
  \<open>fd_open\<close> tells whether the handle is still open. A transfer on a released handle
  fails. Transfer errors of a live bus (NACK, timeout) are not modelled.
\<close>

record smbus =
  regs :: "int \<times> int \<Rightarrow> int"
  writes :: "(int \<times> int \<times> int) list"
  fd_open :: bool

definition write_byte_data :: "smbus \<Rightarrow> int \<Rightarrow> int \<Rightarrow> int \<Rightarrow> error + smbus" where
  "write_byte_data b i2c_addr register v =
     (if fd_open b
      then Inr (b\<lparr>regs := (regs b)((i2c_addr, register) := v),
                 writes := writes b @ [(i2c_addr, register, v)]\<rparr>)
      else Inl BusClosed)"

definition read_byte_data :: "smbus \<Rightarrow> int \<Rightarrow> int \<Rightarrow> error + int" where
  "read_byte_data b i2c_addr register =
     (if fd_open b then Inr (regs b (i2c_addr, register)) else Inl BusClosed)"

definition bus_close :: "smbus \<Rightarrow> error + smbus" where
  "bus_close b = (if fd_open b then Inr (b\<lparr>fd_open := False\<rparr>) else Inl BusClosed)"

subsection \<open>class PCA9685\<close>

record pca9685 =
  bus :: smbus
  address :: int
  frequency :: real

text \<open>
  \<^verbatim>\<open>init_pca9685\<close> is the same in the three scripts. \<^verbatim>\<open>4096.0 * self.frequency\<close> is
  \<open>0.0\<close> exactly when the frequency is 0, and the float division by it then raises
  \<^verbatim>\<open>ZeroDivisionError\<close>, after the first write.
\<close>

definition init_pca9685 :: "pca9685 \<Rightarrow> error + pca9685" where
  "init_pca9685 self =
     bindE (write_byte_data (bus self) (address self) 0x00 0x00) (\<lambda>b1.
     if fmul 4096 (frequency self) = 0 then Inl ZeroDivisionError
     else
       let prescale = py_int (fsub (fdiv 25000000 (fmul 4096 (frequency self))) 1) in
       bindE (read_byte_data b1 (address self) 0x00) (\<lambda>old_mode.
       let sleep_mode = (old_mode AND 0x7F) OR 0x10 in
       bindE (write_byte_data b1 (address self) 0x00 sleep_mode) (\<lambda>b2.
       bindE (write_byte_data b2 (address self) 0xFE prescale) (\<lambda>b3.
       bindE (write_byte_data b3 (address self) 0x00 old_mode) (\<lambda>b4.
       bindE (write_byte_data b4 (address self) 0x00 (old_mode OR 0x20)) (\<lambda>b5.
       Inr (self\<lparr>bus := b5\<rparr>)))))))"

text \<open>
  \<^verbatim>\<open>PCA9685.__init__\<close>: \<open>b0\<close> is the handle that \<^verbatim>\<open>smbus2.SMBus(channel)\<close> has opened.
\<close>

definition PCA9685_new :: "smbus \<Rightarrow> int \<Rightarrow> real \<Rightarrow> error + pca9685" where
  "PCA9685_new b0 addr freq = init_pca9685 \<lparr>bus = b0, address = addr, frequency = freq\<rparr>"

text \<open>\<^verbatim>\<open>set_pwm\<close> (donkey_motor_test.py and steering_calibration.py).\<close>

definition set_pwm :: "pca9685 \<Rightarrow> int \<Rightarrow> int \<Rightarrow> int \<Rightarrow> error + pca9685" where
  "set_pwm self channel on off =
     (let base_reg = 0x06 + 4 * channel in
      bindE (write_byte_data (bus self) (address self) base_reg (on AND 0xFF)) (\<lambda>b1.
      bindE (write_byte_data b1 (address self) (base_reg + 1) (drop_bit 8 on)) (\<lambda>b2.
      bindE (write_byte_data b2 (address self) (base_reg + 2) (off AND 0xFF)) (\<lambda>b3.
      bindE (write_byte_data b3 (address self) (base_reg + 3) (drop_bit 8 off)) (\<lambda>b4.
      Inr (self\<lparr>bus := b4\<rparr>))))))"

text \<open>
  \<^verbatim>\<open>set_pulse\<close> of donkey_motor_test.py: the variant that clamps. The float division
  \<^verbatim>\<open>1000000.0 / self.frequency\<close> raises for frequency 0, and the division by
  \<open>pulse_length\<close> would raise for a \<open>pulse_length\<close> of 0.
\<close>

definition set_pulse :: "pca9685 \<Rightarrow> int \<Rightarrow> real \<Rightarrow> error + pca9685" where
  "set_pulse self channel pulse_ms0 =
     (let pulse_ms = (if pulse_ms0 < 0.5 then 0.5
                      else if pulse_ms0 > 2.5 then 2.5
                      else pulse_ms0) in
      if frequency self = 0 then Inl ZeroDivisionError
      else
        let pulse_length = fdiv (fdiv 1000000 (frequency self)) 4096 in
        if pulse_length = 0 then Inl ZeroDivisionError
        else
          let pulse_value = py_int (fdiv (fmul pulse_ms 1000) pulse_length)
          in set_pwm self channel 0 pulse_value)"

text \<open>\<^verbatim>\<open>set_pulse\<close> of steering_calibration.py: no clamp, then \<^verbatim>\<open>set_pwm\<close>.\<close>

definition calib_set_pulse :: "pca9685 \<Rightarrow> int \<Rightarrow> real \<Rightarrow> error + pca9685" where
  "calib_set_pulse self channel pulse_ms =
     (if frequency self = 0 then Inl ZeroDivisionError
      else
        let pulse_length = fdiv (fdiv 1000000 (frequency self)) 4096 in
        if pulse_length = 0 then Inl ZeroDivisionError
        else
          let pulse_value = py_int (fdiv (fmul pulse_ms 1000) pulse_length)
          in set_pwm self channel 0 pulse_value)"

text \<open>\<^verbatim>\<open>set_pulse\<close> of demo_script.py: no clamp, the four writes inline.\<close>

definition demo_set_pulse :: "pca9685 \<Rightarrow> int \<Rightarrow> real \<Rightarrow> error + pca9685" where
  "demo_set_pulse self channel pulse_ms =
     (if frequency self = 0 then Inl ZeroDivisionError
      else
        let pulse_length = fdiv (fdiv 1000000 (frequency self)) 4096 in
        if pulse_length = 0 then Inl ZeroDivisionError
        else
        let pulse_value = py_int (fdiv (fmul pulse_ms 1000) pulse_length);
            base_reg = 0x06 + 4 * channel
        in
        bindE (write_byte_data (bus self) (address self) base_reg 0) (\<lambda>b1.
        bindE (write_byte_data b1 (address self) (base_reg + 1) 0) (\<lambda>b2.
        bindE (write_byte_data b2 (address self) (base_reg + 2) (pulse_value AND 0xFF)) (\<lambda>b3.
        bindE (write_byte_data b3 (address self) (base_reg + 3) (drop_bit 8 pulse_value)) (\<lambda>b4.
        Inr (self\<lparr>bus := b4\<rparr>))))))"

text \<open>
  \<^verbatim>\<open>stop_all_channels\<close> (donkey_motor_test.py and demo_script.py, the same loop):
  \<open>stop_channel\<close> is the loop body, \<open>stop_channels\<close> the loop over the channels left.
\<close>

definition stop_channel :: "pca9685 \<Rightarrow> int \<Rightarrow> error + pca9685" where
  "stop_channel self channel =
     (let base_reg = 0x06 + 4 * channel in
      bindE (write_byte_data (bus self) (address self) base_reg 0) (\<lambda>b1.
      bindE (write_byte_data b1 (address self) (base_reg + 1) 0) (\<lambda>b2.
      bindE (write_byte_data b2 (address self) (base_reg + 2) 0) (\<lambda>b3.
      bindE (write_byte_data b3 (address self) (base_reg + 3) 0) (\<lambda>b4.
      Inr (self\<lparr>bus := b4\<rparr>))))))"

fun stop_channels :: "pca9685 \<Rightarrow> int list \<Rightarrow> error + pca9685" where
  "stop_channels self [] = Inr self"
| "stop_channels self (channel # rest) =
     bindE (stop_channel self channel) (\<lambda>self'. stop_channels self' rest)"

definition stop_all_channels :: "pca9685 \<Rightarrow> error + pca9685" where
  "stop_all_channels self = stop_channels self [0..15]"

definition close :: "pca9685 \<Rightarrow> error + pca9685" where
  "close self = bindE (bus_close (bus self)) (\<lambda>b. Inr (self\<lparr>bus := b\<rparr>))"

subsection \<open>class DonkeyCarController (donkey_motor_test.py)\<close>

record donkey_car_controller =
  pwm :: pca9685
  steering_channel :: int
  throttle_channel :: int
  steering_center :: real
  steering_range :: real
  throttle_neutral :: real
  throttle_range :: real

definition set_steering_center :: "donkey_car_controller \<Rightarrow> real \<Rightarrow> donkey_car_controller" where
  "set_steering_center self center_ms = self\<lparr>steering_center := center_ms\<rparr>"

definition set_steering :: "donkey_car_controller \<Rightarrow> real \<Rightarrow> error + donkey_car_controller" where
  "set_steering self angle0 =
     (let angle = (if angle0 < -1.0 then -1.0
                   else if angle0 > 1.0 then 1.0
                   else angle0);
          pulse_ms = fadd (steering_center self) (fmul angle (steering_range self))
      in bindE (set_pulse (pwm self) (steering_channel self) pulse_ms) (\<lambda>p.
         Inr (self\<lparr>pwm := p\<rparr>)))"

definition set_throttle :: "donkey_car_controller \<Rightarrow> real \<Rightarrow> error + donkey_car_controller" where
  "set_throttle self speed0 =
     (let speed = (if speed0 < -1.0 then -1.0
                   else if speed0 > 1.0 then 1.0
                   else speed0);
          pulse_ms = fadd (throttle_neutral self) (fmul speed (throttle_range self))
      in bindE (set_pulse (pwm self) (throttle_channel self) pulse_ms) (\<lambda>p.
         Inr (self\<lparr>pwm := p\<rparr>)))"

definition stop :: "donkey_car_controller \<Rightarrow> error + donkey_car_controller" where
  "stop self = bindE (set_throttle self 0) (\<lambda>s1. set_steering s1 0)"

definition cleanup :: "donkey_car_controller \<Rightarrow> error + donkey_car_controller" where
  "cleanup self =
     bindE (stop self) (\<lambda>s1.
     bindE (stop_all_channels (pwm s1)) (\<lambda>p1.
     bindE (close p1) (\<lambda>p2.
     Inr (s1\<lparr>pwm := p2\<rparr>))))"

text \<open>
  \<^verbatim>\<open>DonkeyCarController.__init__\<close>: \<open>b0\<close> is the handle opened by \<^verbatim>\<open>smbus2.SMBus(1)\<close>;
  the driver is built with the default address \<open>0x40\<close> and frequency 60.
\<close>

definition DonkeyCarController_new :: "smbus \<Rightarrow> error + donkey_car_controller" where
  "DonkeyCarController_new b0 =
     bindE (PCA9685_new b0 0x40 60) (\<lambda>p.
     let self = \<lparr>pwm = p, steering_channel = 0, throttle_channel = 1,
                 steering_center = dbl 1.8, steering_range = 0.5,
                 throttle_neutral = 1.5, throttle_range = dbl 0.4\<rparr>
     in bindE (set_steering self 0) (\<lambda>s1. set_throttle s1 0))"

subsection \<open>class PiRacerDemo (demo_script.py)\<close>

record pi_racer_demo =
  demo_pwm :: pca9685
  demo_steering_channel :: int
  demo_throttle_channel :: int
  demo_steering_center :: real
  demo_steering_left :: real
  demo_steering_right :: real
  demo_throttle_neutral :: real
  demo_throttle_slow_forward :: real

definition demo_set_steering :: "pi_racer_demo \<Rightarrow> real \<Rightarrow> error + pi_racer_demo" where
  "demo_set_steering self pulse_ms =
     bindE (demo_set_pulse (demo_pwm self) (demo_steering_channel self) pulse_ms) (\<lambda>p.
     Inr (self\<lparr>demo_pwm := p\<rparr>))"

definition demo_set_throttle :: "pi_racer_demo \<Rightarrow> real \<Rightarrow> error + pi_racer_demo" where
  "demo_set_throttle self pulse_ms =
     bindE (demo_set_pulse (demo_pwm self) (demo_throttle_channel self) pulse_ms) (\<lambda>p.
     Inr (self\<lparr>demo_pwm := p\<rparr>))"

definition demo_stop :: "pi_racer_demo \<Rightarrow> error + pi_racer_demo" where
  "demo_stop self =
     bindE (demo_set_throttle self (demo_throttle_neutral self)) (\<lambda>s1.
     demo_set_steering s1 (demo_steering_center s1))"

definition demo_cleanup :: "pi_racer_demo \<Rightarrow> error + pi_racer_demo" where
  "demo_cleanup self =
     bindE (demo_stop self) (\<lambda>s1.
     bindE (stop_all_channels (demo_pwm s1)) (\<lambda>p1.
     bindE (close p1) (\<lambda>p2.
     Inr (s1\<lparr>demo_pwm := p2\<rparr>))))"

definition PiRacerDemo_new :: "smbus \<Rightarrow> error + pi_racer_demo" where
  "PiRacerDemo_new b0 =
     bindE (PCA9685_new b0 0x40 60) (\<lambda>p.
     demo_stop \<lparr>demo_pwm = p, demo_steering_channel = 0, demo_throttle_channel = 1,
                demo_steering_center = dbl 1.8, demo_steering_left = dbl 1.55,
                demo_steering_right = dbl 2.05, demo_throttle_neutral = 1.5,
                demo_throttle_slow_forward = dbl 1.67\<rparr>)"

subsection \<open>Concrete inputs\<close>

text \<open>
  A freshly opened bus with every register reading 0 and nothing written yet, and a
  driver object on it with the default address and frequency.
\<close>

definition fresh_bus :: smbus where
  "fresh_bus = \<lparr>regs = (\<lambda>_. 0), writes = [], fd_open = True\<rparr>"

definition pwm60 :: pca9685 where
  "pwm60 = \<lparr>bus = fresh_bus, address = 0x40, frequency = 60\<rparr>"

text \<open>What a run has written, or the error it raised.\<close>

definition written :: "error + pca9685 \<Rightarrow> error + (int \<times> int \<times> int) list" where
  "written r = (case r of Inl e \<Rightarrow> Inl e | Inr p \<Rightarrow> Inr (writes (bus p)))"

definition car60 :: donkey_car_controller where
  "car60 = \<lparr>pwm = pwm60, steering_channel = 0, throttle_channel = 1,
             steering_center = dbl 1.8, steering_range = 0.5,
             throttle_neutral = 1.5, throttle_range = dbl 0.4\<rparr>"

definition demo60 :: pi_racer_demo where
  "demo60 = \<lparr>demo_pwm = pwm60, demo_steering_channel = 0, demo_throttle_channel = 1,
              demo_steering_center = dbl 1.8, demo_steering_left = dbl 1.55,
              demo_steering_right = dbl 2.05, demo_throttle_neutral = 1.5,
              demo_throttle_slow_forward = dbl 1.67\<rparr>"

text \<open>A driver whose chip registers all hold a stale non-zero value.\<close>

definition stale_pwm :: pca9685 where
  "stale_pwm = \<lparr>bus = \<lparr>regs = (\<lambda>_. 200), writes = [], fd_open = True\<rparr>,
                 address = 0x40, frequency = 60\<rparr>"

subsection \<open>Vocabulary of the properties\<close>

text \<open>
  \<open>truncation_of x t\<close>: the integer \<open>t\<close> is the real \<open>x\<close> with its fractional part cut
  off (rounding toward zero), stated without reference to \<open>py_int\<close>.
\<close>

definition truncation_of :: "real \<Rightarrow> int \<Rightarrow> bool" where
  "truncation_of x t =
     (\<bar>real_of_int t\<bar> \<le> \<bar>x\<bar> \<and> \<bar>x\<bar> < \<bar>real_of_int t\<bar> + 1 \<and> 0 \<le> real_of_int t * x)"

text \<open>
  The four register writes of one channel for ON ticks 0 and OFF ticks \<open>t\<close>:
  ON-low, ON-high, OFF-low, OFF-high, from register \<open>0x06 + 4 * channel\<close>.
\<close>

definition pulse_writes :: "int \<Rightarrow> int \<Rightarrow> int \<Rightarrow> (int \<times> int \<times> int) list" where
  "pulse_writes a ch t =
     [(a, 6 + 4 * ch, 0), (a, 6 + 4 * ch + 1, 0),
      (a, 6 + 4 * ch + 2, t AND 255), (a, 6 + 4 * ch + 3, drop_bit 8 t)]"

text \<open>
  The controller commands pulse width \<open>pulse\<close> on channel \<open>ch\<close>: the effect of
  \<^verbatim>\<open>self.pwm.set_pulse(ch, pulse)\<close> on the controller.
\<close>

definition commands :: "donkey_car_controller \<Rightarrow> int \<Rightarrow> real \<Rightarrow> error + donkey_car_controller" where
  "commands c ch pulse = bindE (set_pulse (pwm c) ch pulse) (\<lambda>p. Inr (c\<lparr>pwm := p\<rparr>))"

definition succeeds :: "error + 'a \<Rightarrow> bool" where
  "succeeds r = (case r of Inl _ \<Rightarrow> False | Inr _ \<Rightarrow> True)"

text \<open>The prescale register of the chip after a run, or the error the run raised.\<close>

definition prescale_written :: "error + pca9685 \<Rightarrow> error + int" where
  "prescale_written r = (case r of Inl e \<Rightarrow> Inl e | Inr p \<Rightarrow> Inr (regs (bus p) (address p, 0xFE)))"

text \<open>
  The float value of \<^verbatim>\<open>pulse_ms * 1000.0 / pulse_length\<close> with
  \<^verbatim>\<open>pulse_length = 1000000.0 / frequency / 4096.0\<close> (the conversion of \<^verbatim>\<open>set_pulse\<close>), and
  the float value of \<^verbatim>\<open>25000000.0 / (4096.0 * frequency) - 1.0\<close> (\<^verbatim>\<open>init_pca9685\<close>), each
  before \<^verbatim>\<open>int\<close> is applied.
\<close>

definition pulse_quotient :: "real \<Rightarrow> real \<Rightarrow> real" where
  "pulse_quotient f p = fdiv (fmul p 1000) (fdiv (fdiv 1000000 f) 4096)"

definition prescale_float :: "real \<Rightarrow> real" where
  "prescale_float f = fsub (fdiv 25000000 (fmul 4096 f)) 1"

text \<open>
  \<open>is_float x\<close>: the number \<open>x\<close> is a double (rounding leaves it as it is) and is 0 or
  of a magnitude between \<open>10^-100\<close> and \<open>10^100\<close>, so that the two computations above stay
  within the exponent range of a double. A Python \<^verbatim>\<open>int\<close> argument that converts to a
  float exactly is such a number too.
\<close>

definition is_float :: "real \<Rightarrow> bool" where
  "is_float x = (dbl x = x \<and> (x = 0 \<or> (1 / 10 ^ 100 \<le> \<bar>x\<bar> \<and> \<bar>x\<bar> \<le> 10 ^ 100)))"

section \<open>Properties\<close>

subsection \<open>Rounding to a double\<close>

text \<open>
  Rounding to a double is monotone, keeps the sign, and is off by at most the fraction
  \<open>2^-53\<close> of the value rounded.
\<close>

lemma pow2_pos: "0 < pow2 k"
  by (simp add: pow2_def)

lemma pow2_Suc: "pow2 (k + 1) = 2 * pow2 k"
proof -
  consider "0 \<le> k" | "k = -1" | "k < -1" by linarith
  then show ?thesis
  proof cases
    case 1
    then have "nat (k + 1) = Suc (nat k)" by simp
    with 1 show ?thesis by (simp add: pow2_def)
  next
    case 2
    then show ?thesis by (simp add: pow2_def)
  next
    case 3
    then have "nat (- k) = Suc (nat (- (k + 1)))" by simp
    with 3 show ?thesis by (simp add: pow2_def)
  qed
qed

lemma pow2_add_nat: "pow2 (k + int n) = pow2 k * 2 ^ n"
proof (induction n)
  case 0
  then show ?case by simp
next
  case (Suc n)
  have eq: "k + int (Suc n) = (k + int n) + 1" by simp
  have "pow2 (k + int (Suc n)) = 2 * pow2 (k + int n)"
    by (subst eq) (rule pow2_Suc)
  then show ?case using Suc by simp
qed

lemma pow2_mono: "a \<le> b \<Longrightarrow> pow2 a \<le> pow2 b"
proof -
  assume "a \<le> b"
  then have "b = a + int (nat (b - a))" by simp
  then have "pow2 b = pow2 a * 2 ^ nat (b - a)" by (metis pow2_add_nat)
  moreover have "(1::real) \<le> 2 ^ nat (b - a)" by simp
  ultimately show ?thesis using pow2_pos [of a] by (simp add: mult_le_cancel_left1)
qed

lemma expo_bounds: "0 < x \<Longrightarrow> pow2 (expo x) \<le> x \<and> x < pow2 (expo x + 1)"
proof (induction x rule: expo.induct)
  case (1 x)
  consider "2 \<le> x" | "x < 1" | "1 \<le> x" "x < 2" by linarith
  then show ?case
  proof cases
    case 1
    have e: "expo x = expo (x / 2) + 1" using 1 "1.prems" by (subst expo.simps) simp
    have "pow2 (expo (x / 2)) \<le> x / 2 \<and> x / 2 < pow2 (expo (x / 2) + 1)"
      using "1.IH"(1) 1 "1.prems" by simp
    moreover have "pow2 (expo (x / 2) + 1) = 2 * pow2 (expo (x / 2))" by (rule pow2_Suc)
    moreover have "pow2 (expo (x / 2) + 1 + 1) = 2 * pow2 (expo (x / 2) + 1)" by (rule pow2_Suc)
    ultimately show ?thesis unfolding e by linarith
  next
    case 2
    have e: "expo x = expo (x * 2) - 1" using 2 "1.prems" by (subst expo.simps) simp
    have "pow2 (expo (x * 2)) \<le> x * 2 \<and> x * 2 < pow2 (expo (x * 2) + 1)"
      using "1.IH"(2) 2 "1.prems" by simp
    moreover have "pow2 (expo (x * 2)) = 2 * pow2 (expo (x * 2) - 1)"
      using pow2_Suc [of "expo (x * 2) - 1"] by simp
    moreover have "pow2 (expo (x * 2) - 1 + 1) = pow2 (expo (x * 2))" by simp
    moreover have "pow2 (expo (x * 2) + 1) = 2 * pow2 (expo (x * 2))" by (rule pow2_Suc)
    ultimately show ?thesis unfolding e by linarith
  next
    case 3
    have e: "expo x = 0" using 3 by (subst expo.simps) simp
    show ?thesis unfolding e using 3 by (simp add: pow2_def)
  qed
qed

lemma expo_mono: "0 < x \<Longrightarrow> x \<le> y \<Longrightarrow> expo x \<le> expo y"
proof (rule ccontr)
  assume x: "0 < x" and xy: "x \<le> y" and "\<not> expo x \<le> expo y"
  then have "expo y + 1 \<le> expo x" by simp
  then have "pow2 (expo y + 1) \<le> pow2 (expo x)" by (rule pow2_mono)
  moreover have "y < pow2 (expo y + 1)" using expo_bounds [of y] x xy by simp
  moreover have "pow2 (expo x) \<le> x" using expo_bounds [OF x] by simp
  ultimately show False using xy by linarith
qed

lemma round_half_even_of_int: "round_half_even (real_of_int n) = n"
  by (simp add: round_half_even_def)

lemma round_half_even_range:
  "\<lfloor>x\<rfloor> \<le> round_half_even x \<and> round_half_even x \<le> \<lfloor>x\<rfloor> + 1"
  by (simp add: round_half_even_def Let_def)

lemma round_half_even_mono: "x \<le> y \<Longrightarrow> round_half_even x \<le> round_half_even y"
proof -
  assume xy: "x \<le> y"
  have fm: "\<lfloor>x\<rfloor> \<le> \<lfloor>y\<rfloor>" using xy by (rule floor_mono)
  show ?thesis
  proof (cases "\<lfloor>x\<rfloor> = \<lfloor>y\<rfloor>")
    case True
    then have "x - real_of_int \<lfloor>x\<rfloor> \<le> y - real_of_int \<lfloor>y\<rfloor>" using xy by simp
    then show ?thesis using True by (auto simp: round_half_even_def Let_def)
  next
    case False
    then have "\<lfloor>x\<rfloor> + 1 \<le> \<lfloor>y\<rfloor>" using fm by simp
    then show ?thesis
      using round_half_even_range [of x] round_half_even_range [of y] by linarith
  qed
qed

lemma round_half_even_error: "\<bar>real_of_int (round_half_even x) - x\<bar> \<le> 1 / 2"
proof -
  have "real_of_int \<lfloor>x\<rfloor> \<le> x" "x < real_of_int \<lfloor>x\<rfloor> + 1" by linarith+
  then show ?thesis by (auto simp: round_half_even_def Let_def)
qed

lemma dbl_pos_bounds:
  assumes "0 < x"
  shows "pow2 (expo x) \<le> dbl_pos x \<and> dbl_pos x \<le> pow2 (expo x + 1)"
proof -
  let ?u = "pow2 (expo x - 52)"
  have u: "0 < ?u" by (rule pow2_pos)
  have e52: "expo x = (expo x - 52) + int 52" and e53: "expo x + 1 = (expo x - 52) + int 53"
    by simp_all
  have lo: "pow2 (expo x) = ?u * 2 ^ 52"
    by (subst e52) (rule pow2_add_nat)
  have hi: "pow2 (expo x + 1) = ?u * 2 ^ 53"
    by (subst e53) (rule pow2_add_nat)
  have b: "pow2 (expo x) \<le> x" "x < pow2 (expo x + 1)" using expo_bounds [OF assms] by simp_all
  have "2 ^ 52 \<le> x / ?u" using b(1) u unfolding lo by (simp add: pos_le_divide_eq mult.commute)
  then have "round_half_even (real_of_int (2 ^ 52)) \<le> round_half_even (x / ?u)"
    by (intro round_half_even_mono) simp
  then have l: "2 ^ 52 \<le> round_half_even (x / ?u)" by (simp only: round_half_even_of_int)
  have "x / ?u \<le> 2 ^ 53" using b(2) u unfolding hi by (simp add: pos_divide_le_eq mult.commute)
  then have "round_half_even (x / ?u) \<le> round_half_even (real_of_int (2 ^ 53))"
    by (intro round_half_even_mono) simp
  then have h: "round_half_even (x / ?u) \<le> 2 ^ 53" by (simp only: round_half_even_of_int)
  have "?u * 2 ^ 52 \<le> ?u * real_of_int (round_half_even (x / ?u))"
    using l u by (simp add: of_int_le_iff [symmetric] del: of_int_le_iff)
  moreover have "?u * real_of_int (round_half_even (x / ?u)) \<le> ?u * 2 ^ 53"
    using h u by (simp add: of_int_le_iff [symmetric] del: of_int_le_iff)
  ultimately show ?thesis unfolding lo hi by (simp add: dbl_pos_def Let_def)
qed

lemma dbl_pos_pos: "0 < x \<Longrightarrow> 0 < dbl_pos x"
  using dbl_pos_bounds [of x] pow2_pos [of "expo x"] by linarith

lemma dbl_pos_mono:
  assumes "0 < x" and "x \<le> y"
  shows "dbl_pos x \<le> dbl_pos y"
proof (cases "expo x = expo y")
  case True
  let ?u = "pow2 (expo y - 52)"
  have u: "0 < ?u" by (rule pow2_pos)
  have "x / ?u \<le> y / ?u" using assms(2) u by (simp add: divide_right_mono)
  then have "round_half_even (x / ?u) \<le> round_half_even (y / ?u)"
    by (rule round_half_even_mono)
  then have "?u * real_of_int (round_half_even (x / ?u)) \<le> ?u * real_of_int (round_half_even (y / ?u))"
    using u by simp
  then show ?thesis using True by (simp add: dbl_pos_def Let_def)
next
  case False
  then have "expo x + 1 \<le> expo y" using expo_mono [OF assms] by simp
  then have "pow2 (expo x + 1) \<le> pow2 (expo y)" by (rule pow2_mono)
  moreover have "dbl_pos x \<le> pow2 (expo x + 1)" using dbl_pos_bounds [OF assms(1)] by simp
  moreover have "pow2 (expo y) \<le> dbl_pos y" using dbl_pos_bounds [of y] assms by simp
  ultimately show ?thesis by linarith
qed

lemma dbl_sign: "(0 < x \<longrightarrow> 0 < dbl x) \<and> (x < 0 \<longrightarrow> dbl x < 0) \<and> (dbl x = 0 \<longleftrightarrow> x = 0)"
  using dbl_pos_pos [of x] dbl_pos_pos [of "- x"] by (auto simp: dbl_def)

lemma dbl_mono: "x \<le> y \<Longrightarrow> dbl x \<le> dbl y"
proof -
  assume xy: "x \<le> y"
  consider "0 < x" | "y < 0" | "x \<le> 0" "0 \<le> y" by linarith
  then show ?thesis
  proof cases
    case 1
    then show ?thesis using xy dbl_pos_mono [of x y] by (simp add: dbl_def)
  next
    case 2
    then have "dbl_pos (- y) \<le> dbl_pos (- x)" using xy dbl_pos_mono [of "- y" "- x"] by simp
    then show ?thesis using 2 xy by (simp add: dbl_def)
  next
    case 3
    have "dbl x \<le> 0" using 3(1) dbl_sign [of x] by (cases "x = 0") auto
    moreover have "0 \<le> dbl y" using 3(2) dbl_sign [of y] by (cases "y = 0") auto
    ultimately show ?thesis by simp
  qed
qed

lemma dbl_error: "\<bar>dbl x - x\<bar> \<le> \<bar>x\<bar> / 2 ^ 53"
proof -
  have pos: "\<bar>dbl_pos z - z\<bar> \<le> z / 2 ^ 53" if z: "0 < z" for z
  proof -
    let ?u = "pow2 (expo z - 52)"
    have u: "0 < ?u" by (rule pow2_pos)
    have e52: "expo z = (expo z - 52) + int 52" by simp
    have "pow2 (expo z) = ?u * 2 ^ 52" by (subst e52) (rule pow2_add_nat)
    then have uz: "?u * 2 ^ 52 \<le> z" using expo_bounds [OF z] by simp
    have "dbl_pos z - z = ?u * (real_of_int (round_half_even (z / ?u)) - z / ?u)"
      using u by (simp add: dbl_pos_def Let_def right_diff_distrib)
    then have "\<bar>dbl_pos z - z\<bar> = ?u * \<bar>real_of_int (round_half_even (z / ?u)) - z / ?u\<bar>"
      using u by (simp add: abs_mult)
    also have "\<dots> \<le> ?u * (1 / 2)"
      using round_half_even_error [of "z / ?u"] u by (simp only: mult_le_cancel_left_pos)
    also have "\<dots> \<le> z / 2 ^ 53" using uz by simp
    finally show ?thesis .
  qed
  consider "x = 0" | "0 < x" | "x < 0" by linarith
  then show ?thesis
  proof cases
    case 1 then show ?thesis by (simp add: dbl_def)
  next
    case 2 then show ?thesis using pos [of x] by (simp add: dbl_def)
  next
    case 3
    then have "\<bar>dbl_pos (- x) - (- x)\<bar> \<le> (- x) / 2 ^ 53" using pos [of "- x"] by simp
    moreover have "\<bar>dbl x - x\<bar> = \<bar>dbl_pos (- x) - (- x)\<bar>" using 3 by (simp add: dbl_def)
    ultimately show ?thesis using 3 by simp
  qed
qed

lemmas float_eval =
  expo.simps pow2_def round_half_even_def dbl_pos_def dbl_def
  fmul_def fdiv_def fadd_def fsub_def Let_def

subsection \<open>Truncation and the register writes of one channel\<close>

lemma py_int_truncation: "truncation_of x (py_int x)"
proof (cases "0 \<le> x")
  case True
  have "real_of_int \<lfloor>x\<rfloor> \<le> x" "x < real_of_int \<lfloor>x\<rfloor> + 1" by linarith+
  moreover have "0 \<le> real_of_int \<lfloor>x\<rfloor>" using True by simp
  ultimately show ?thesis using True
    by (simp add: truncation_of_def py_int_def)
next
  case False
  have "x \<le> real_of_int \<lceil>x\<rceil>" "real_of_int \<lceil>x\<rceil> < x + 1" by linarith+
  moreover have "real_of_int \<lceil>x\<rceil> \<le> 0" using False by (simp add: ceiling_le_iff)
  ultimately show ?thesis using False
    by (simp add: truncation_of_def py_int_def mult_nonpos_nonpos)
qed

lemma py_int_mono: "x \<le> y \<Longrightarrow> py_int x \<le> py_int y"
proof -
  assume xy: "x \<le> y"
  have fc: "\<lfloor>z\<rfloor> \<le> \<lceil>z\<rceil>" for z :: real by linarith
  show ?thesis
  proof (cases "0 \<le> x")
    case True
    then show ?thesis using xy by (simp add: py_int_def floor_mono)
  next
    case False
    show ?thesis
    proof (cases "0 \<le> y")
      case True
      have "\<lceil>x\<rceil> \<le> 0" using False by (simp add: ceiling_le_iff)
      moreover have "0 \<le> \<lfloor>y\<rfloor>" using True by simp
      ultimately have "\<lceil>x\<rceil> \<le> \<lfloor>y\<rfloor>" by linarith
      then show ?thesis using False True by (simp add: py_int_def)
    next
      case False
      then show ?thesis using xy \<open>\<not> 0 \<le> x\<close> by (simp add: py_int_def ceiling_mono)
    qed
  qed
qed

lemma truncation_of_unique: "truncation_of x t \<Longrightarrow> t = py_int x"
proof -
  assume h: "truncation_of x t"
  show ?thesis
  proof (cases "0 \<le> x")
    case True
    have "0 \<le> t"
    proof (rule ccontr)
      assume "\<not> 0 \<le> t"
      then have t: "real_of_int t \<le> -1" by linarith
      with h have "1 \<le> \<bar>x\<bar>" "real_of_int t * x \<ge> 0" by (auto simp: truncation_of_def)
      with True t have "x \<ge> 1" by simp
      with t have "real_of_int t * x < 0" by (simp add: mult_neg_pos)
      with \<open>real_of_int t * x \<ge> 0\<close> show False by simp
    qed
    with h True have "real_of_int t \<le> x" "x < real_of_int t + 1"
      by (auto simp: truncation_of_def)
    then have "\<lfloor>x\<rfloor> = t" by linarith
    with True show ?thesis by (simp add: py_int_def)
  next
    case False
    have "t \<le> 0"
    proof (rule ccontr)
      assume "\<not> t \<le> 0"
      then have t: "1 \<le> real_of_int t" by linarith
      with False have "real_of_int t * x < 0" by (simp add: mult_pos_neg)
      with h show False by (simp add: truncation_of_def)
    qed
    with h False have "x \<le> real_of_int t" "real_of_int t < x + 1"
      by (auto simp: truncation_of_def)
    then have "\<lceil>x\<rceil> = t" by linarith
    with False show ?thesis by (simp add: py_int_def)
  qed
qed

lemma set_pwm_open:
  "fd_open (bus self) \<Longrightarrow>
   set_pwm self ch on off =
     Inr (self\<lparr>bus := (bus self)\<lparr>
        regs := (regs (bus self))
          ((address self, 6 + 4 * ch) := on AND 255,
           (address self, 6 + 4 * ch + 1) := drop_bit 8 on,
           (address self, 6 + 4 * ch + 2) := off AND 255,
           (address self, 6 + 4 * ch + 3) := drop_bit 8 off),
        writes := writes (bus self) @
          [(address self, 6 + 4 * ch, on AND 255),
           (address self, 6 + 4 * ch + 1, drop_bit 8 on),
           (address self, 6 + 4 * ch + 2, off AND 255),
           (address self, 6 + 4 * ch + 3, drop_bit 8 off)]\<rparr>\<rparr>)"
  by (simp add: set_pwm_def write_byte_data_def bindE_def Let_def)

lemma set_pwm_closed: "\<not> fd_open (bus self) \<Longrightarrow> set_pwm self ch on off = Inl BusClosed"
  by (simp add: set_pwm_def write_byte_data_def bindE_def Let_def)

lemma pulse_length_nonzero: "f \<noteq> 0 \<Longrightarrow> fdiv (fdiv 1000000 f) 4096 \<noteq> 0"
proof -
  assume "f \<noteq> 0"
  then have "dbl (1000000 / f) \<noteq> 0" using dbl_sign [of "1000000 / f"] by simp
  then have "dbl (dbl (1000000 / f) / 4096) \<noteq> 0"
    using dbl_sign [of "dbl (1000000 / f) / 4096"] by simp
  then show ?thesis by (simp add: fdiv_def)
qed

lemma set_pulse_eq:
  "frequency self \<noteq> 0 \<Longrightarrow>
   set_pulse self ch p =
     set_pwm self ch 0 (py_int (pulse_quotient (frequency self) (max (1/2) (min (5/2) p))))"
proof -
  assume f: "frequency self \<noteq> 0"
  have c: "(if p < 0.5 then 0.5 else if p > 2.5 then 2.5 else p) = max (1/2) (min (5/2) p)"
    by (auto simp: max_def min_def)
  show ?thesis
    unfolding set_pulse_def Let_def c pulse_quotient_def
    using f pulse_length_nonzero [OF f] by simp
qed

lemma calib_set_pulse_eq:
  "frequency self \<noteq> 0 \<Longrightarrow>
   calib_set_pulse self ch p = set_pwm self ch 0 (py_int (pulse_quotient (frequency self) p))"
  using pulse_length_nonzero [of "frequency self"]
  by (simp add: calib_set_pulse_def pulse_quotient_def Let_def)

lemma demo_set_pulse_calib: "demo_set_pulse self ch p = calib_set_pulse self ch p"
  by (simp add: demo_set_pulse_def calib_set_pulse_def set_pwm_def Let_def)

lemma set_pwm_pulse_writes:
  "fd_open (bus self) \<Longrightarrow>
   \<exists>self'. set_pwm self ch 0 t = Inr self' \<and>
     writes (bus self') = writes (bus self) @ pulse_writes (address self) ch t \<and>
     fd_open (bus self') \<and> address self' = address self \<and> frequency self' = frequency self"
  by (simp add: set_pwm_open pulse_writes_def)

lemma pulse_quotient_mono:
  assumes "0 < f" and "p \<le> q"
  shows "pulse_quotient f p \<le> pulse_quotient f q"
proof -
  let ?l = "fdiv (fdiv 1000000 f) 4096"
  have "0 < dbl (1000000 / f)" using assms(1) dbl_sign [of "1000000 / f"] by simp
  then have l: "0 < ?l" using dbl_sign [of "dbl (1000000 / f) / 4096"] by (simp add: fdiv_def)
  have "fmul p 1000 \<le> fmul q 1000" using assms(2) by (simp add: fmul_def dbl_mono)
  then have "fmul p 1000 / ?l \<le> fmul q 1000 / ?l" using l by (simp add: divide_right_mono)
  then show ?thesis unfolding pulse_quotient_def fdiv_def [of "fmul p 1000"] fdiv_def [of "fmul q 1000"]
    by (rule dbl_mono)
qed

lemma prescale_float_antimono:
  assumes "0 < f1" and "f1 \<le> f2"
  shows "prescale_float f2 \<le> prescale_float f1"
proof -
  let ?d1 = "fmul 4096 f1" and ?d2 = "fmul 4096 f2"
  have d1: "0 < ?d1" using assms(1) dbl_sign [of "4096 * f1"] by (simp add: fmul_def)
  have d12: "?d1 \<le> ?d2" using assms(2) by (simp add: fmul_def dbl_mono)
  have "25000000 / ?d2 \<le> 25000000 / ?d1" using d1 d12 by (simp add: frac_le)
  then have "fdiv 25000000 ?d2 \<le> fdiv 25000000 ?d1" unfolding fdiv_def by (rule dbl_mono)
  then have "fdiv 25000000 ?d2 - 1 \<le> fdiv 25000000 ?d1 - 1" by simp
  then show ?thesis unfolding prescale_float_def fsub_def by (rule dbl_mono)
qed

lemma eval_examples:
  "py_int (pulse_quotient 60 (1/2)) = 122"
  "py_int (pulse_quotient 60 (5/2)) = 614"
  "py_int (pulse_quotient 60 (3/2)) = 368"
  "py_int (pulse_quotient 60 3) = 737"
  "py_int (pulse_quotient 60 20) = 4915"
  "py_int (pulse_quotient 60 (125/64)) = 479"
  "py_int (pulse_quotient 60 (16666/1000)) = 4095"
  "py_int (pulse_quotient 60 0) = 0"
  "py_int (prescale_float 60) = 100"
  "py_int (prescale_float 50) = 121"
  "py_int (prescale_float (1491308088888889 / 2199023255552)) = 8"
  by (simp_all add: pulse_quotient_def prescale_float_def float_eval py_int_def)

lemma dbl_literals:
  "dbl 1.3 = 5854679515581645 / 4503599627370496"
  "dbl 1.7 = 7656119366529843 / 4503599627370496"
  "dbl 1.67 = 940126422213591 / 562949953421312"
  by (simp_all add: float_eval)

lemma eval_literals:
  "py_int (pulse_quotient 60 (5854679515581645 / 4503599627370496)) = 319"
  "py_int (pulse_quotient 60 (7656119366529843 / 4503599627370496)) = 417"
  "py_int (pulse_quotient 60 (940126422213591 / 562949953421312)) = 410"
  "py_int (pulse_quotient 60 2) = 491"
  by (simp_all add: pulse_quotient_def float_eval py_int_def)

lemma written_set_pulse:
  assumes "fd_open (bus self)" and "frequency self \<noteq> 0"
  shows "written (set_pulse self ch p) =
           Inr (writes (bus self) @ pulse_writes (address self) ch
             (py_int (pulse_quotient (frequency self) (max (1/2) (min (5/2) p)))))"
  by (simp add: set_pulse_eq [OF assms(2)] set_pwm_open [OF assms(1)] written_def
      pulse_writes_def)

lemma written_demo_set_pulse:
  assumes "fd_open (bus self)" and "frequency self \<noteq> 0"
  shows "written (demo_set_pulse self ch p) =
           Inr (writes (bus self) @ pulse_writes (address self) ch
             (py_int (pulse_quotient (frequency self) p)))"
  by (simp add: demo_set_pulse_calib calib_set_pulse_eq [OF assms(2)]
      set_pwm_open [OF assms(1)] written_def pulse_writes_def)

lemma pwm60_simps:
  "fd_open (bus pwm60)" "frequency pwm60 = 60" "address pwm60 = 64" "writes (bus pwm60) = []"
  by (simp_all add: pwm60_def fresh_bus_def)

subsection \<open>Pulse width to ticks\<close>

text \<open>
  Claim C1, as the code has it. \<^verbatim>\<open>set_pulse\<close> of donkey_motor_test.py clamps the pulse
  width into \<open>[0.5, 2.5]\<close> for every channel and every pulse width: its whole effect
  (the ticks written, or the error raised) is that of the conversion without a clamp
  applied to \<open>max 0.5 (min 2.5 p)\<close>, so a pulse width outside the interval is neither
  rejected nor passed through. \<^verbatim>\<open>set_pulse\<close> of demo_script.py and of
  steering_calibration.py do not clamp: both convert and write the pulse width as given.
\<close>

theorem set_pulse_clamps:
  "set_pulse self ch p = calib_set_pulse self ch (max (1/2) (min (5/2) p)) \<and>
   set_pulse self ch p = set_pulse self ch (max (1/2) (min (5/2) p)) \<and>
   demo_set_pulse self ch p = calib_set_pulse self ch p"
proof (cases "frequency self = 0")
  case True
  then show ?thesis
    by (simp add: set_pulse_def calib_set_pulse_def demo_set_pulse_def)
next
  case False
  have "max (1/2) (min (5/2) (max (1/2) (min (5/2) p))) = max (1/2) (min (5/2) p)"
    by (simp add: max_def min_def)
  then show ?thesis
    using False by (simp add: set_pulse_eq calib_set_pulse_eq demo_set_pulse_calib)
qed

text \<open>
  The claim as stated (every \<^verbatim>\<open>set_pulse\<close> clamps) fails on demo_script.py: at 60 Hz a
  pulse width of 3 ms is written as 737 ticks (\<open>225 + 2 * 256\<close>), while the clamped pulse
  width 2.5 ms would be 614 ticks (\<open>102 + 2 * 256\<close>).
\<close>

theorem set_pulse_clamps_counterexample:
  "written (demo_set_pulse pwm60 0 3) = Inr [(64, 6, 0), (64, 7, 0), (64, 8, 225), (64, 9, 2)] \<and>
   written (demo_set_pulse pwm60 0 (max (1/2) (min (5/2) 3))) =
     Inr [(64, 6, 0), (64, 7, 0), (64, 8, 102), (64, 9, 2)]"
  by (simp add: written_set_pulse written_demo_set_pulse pwm60_simps eval_examples
      pulse_writes_def)

text \<open>
  Claim C2, as the code has it. For an open bus, the duty ticks that \<^verbatim>\<open>set_pulse\<close>
  converts to and writes are the float value of
  \<^verbatim>\<open>pulse_ms * 1000.0 / (1000000.0 / frequency / 4096.0)\<close> truncated toward zero (Python's
  \<^verbatim>\<open>int\<close>), not a value rounded to the nearest integer; the pulse is the clamped one in
  donkey_motor_test.py and the given one in demo_script.py. This is stated for a
  frequency other than 0, and for a frequency and a pulse width that are floats within
  the exponent range of the float model (\<open>is_float\<close>).
\<close>

theorem set_pulse_truncates:
  assumes "fd_open (bus self)" and "frequency self \<noteq> 0" and "is_float (frequency self)"
    and "is_float q"
  shows "(\<exists>self' t. set_pulse self ch p = Inr self' \<and>
           writes (bus self') = writes (bus self) @ pulse_writes (address self) ch t \<and>
           truncation_of (pulse_quotient (frequency self) (max (1/2) (min (5/2) p))) t) \<and>
         (\<exists>self' t. demo_set_pulse self ch q = Inr self' \<and>
           writes (bus self') = writes (bus self) @ pulse_writes (address self) ch t \<and>
           truncation_of (pulse_quotient (frequency self) q) t)"
proof
  note f = assms(2)
  show "\<exists>self' t. set_pulse self ch p = Inr self' \<and>
           writes (bus self') = writes (bus self) @ pulse_writes (address self) ch t \<and>
           truncation_of (pulse_quotient (frequency self) (max (1/2) (min (5/2) p))) t"
    using f set_pwm_pulse_writes[OF assms(1)] py_int_truncation
    by (metis set_pulse_eq)
  show "\<exists>self' t. demo_set_pulse self ch q = Inr self' \<and>
           writes (bus self') = writes (bus self) @ pulse_writes (address self) ch t \<and>
           truncation_of (pulse_quotient (frequency self) q) t"
    using f set_pwm_pulse_writes[OF assms(1)] py_int_truncation
    by (metis demo_set_pulse_calib calib_set_pulse_eq)
qed

text \<open>
  At 60 Hz: 1.953125 ms is written as 479 ticks by the clamping variant (the exact
  product is 480, the float quotient lies just below it), and 3 ms as 737 ticks by the
  variant without a clamp.
\<close>

theorem set_pulse_truncates_witness:
  "fd_open (bus pwm60) \<and> frequency pwm60 \<noteq> 0 \<and> is_float (frequency pwm60) \<and> is_float 3 \<and>
   written (set_pulse pwm60 0 (125/64)) = Inr (pulse_writes 64 0 479) \<and>
   written (demo_set_pulse pwm60 0 3) = Inr (pulse_writes 64 0 737)"
proof -
  have o: "fd_open (bus pwm60)" and n: "frequency pwm60 \<noteq> 0"
    by (simp_all add: pwm60_simps)
  have f: "is_float (frequency pwm60)" and q: "is_float 3"
    by (simp_all add: pwm60_simps is_float_def float_eval)
  from set_pulse_truncates[OF o n f q, of 0 "125/64"]
  obtain s1 t1 s2 t2 where
    1: "set_pulse pwm60 0 (125/64) = Inr s1"
       "writes (bus s1) = writes (bus pwm60) @ pulse_writes (address pwm60) 0 t1"
       "truncation_of (pulse_quotient (frequency pwm60) (max (1/2) (min (5/2) (125/64)))) t1" and
    2: "demo_set_pulse pwm60 0 3 = Inr s2"
       "writes (bus s2) = writes (bus pwm60) @ pulse_writes (address pwm60) 0 t2"
       "truncation_of (pulse_quotient (frequency pwm60) 3) t2"
    by blast
  have "t1 = 479" using truncation_of_unique[OF 1(3)] by (simp add: pwm60_def eval_examples)
  moreover have "t2 = 737" using truncation_of_unique[OF 2(3)] by (simp add: pwm60_def eval_examples)
  ultimately show ?thesis using o n f q 1 2
    by (simp add: written_def pwm60_simps)
qed

text \<open>
  The claim as stated (round to nearest) fails at 1.5 ms and 60 Hz: the exact value is
  368.64, the code writes 368 (\<open>112 + 1 * 256\<close>) and rounding gives 369.
\<close>

theorem set_pulse_truncates_counterexample:
  "written (set_pulse pwm60 0 (3/2)) = Inr [(64, 6, 0), (64, 7, 0), (64, 8, 112), (64, 9, 1)] \<and>
   (112::int) + 256 * 1 = 368 \<and>
   round (3/2 * 60 * 4096 / 1000 :: real) = 369"
  by (simp add: written_set_pulse pwm60_simps eval_examples pulse_writes_def round_def)

subsection \<open>Prescale\<close>

lemma init_pca9685_open:
  assumes "fd_open (bus self)" and "frequency self \<noteq> 0"
  shows "\<exists>self'. init_pca9685 self = Inr self' \<and>
           writes (bus self') = writes (bus self) @
             [(address self, 0, 0), (address self, 0, 16),
              (address self, 254, py_int (prescale_float (frequency self))),
              (address self, 0, 0), (address self, 0, 32)] \<and>
           regs (bus self') (address self, 254) = py_int (prescale_float (frequency self)) \<and>
           fd_open (bus self') \<and> address self' = address self \<and>
           frequency self' = frequency self"
proof -
  have "fmul 4096 (frequency self) \<noteq> 0"
    using assms(2) dbl_sign [of "4096 * frequency self"] by (simp add: fmul_def)
  then show ?thesis using assms(1)
    by (simp add: init_pca9685_def prescale_float_def write_byte_data_def read_byte_data_def
        bindE_def Let_def)
qed

text \<open>
  Claim C3, as the code has it. For an open bus and every positive frequency \<open>f\<close> that
  is a float within the exponent range of the float model (\<open>is_float\<close>),
  \<^verbatim>\<open>init_pca9685\<close> succeeds, and the prescale it
  computes and writes to register \<open>0xFE\<close> is the float value of
  \<^verbatim>\<open>25000000.0 / (4096.0 * f) - 1.0\<close> truncated toward zero, not a value rounded to the
  nearest integer.
\<close>

theorem init_pca9685_prescale:
  assumes "fd_open (bus self)" and "0 < frequency self" and "is_float (frequency self)"
  shows "\<exists>self' t. init_pca9685 self = Inr self' \<and>
           writes (bus self') = writes (bus self) @
             [(address self, 0, 0), (address self, 0, 16), (address self, 0xFE, t),
              (address self, 0, 0), (address self, 0, 32)] \<and>
           regs (bus self') (address self, 0xFE) = t \<and>
           truncation_of (prescale_float (frequency self)) t"
proof -
  have "frequency self \<noteq> 0" using assms(2) by simp
  from init_pca9685_open[OF assms(1) this] py_int_truncation
  show ?thesis by fastforce
qed

text \<open>
  At 60 Hz the prescale written is 100. At 678.1684027777778 Hz (the double
  \<open>1491308088888889 / 2^41\<close>) it is 8: the exact quotient lies just below 9, the float
  quotient is 9.
\<close>

theorem init_pca9685_prescale_witness:
  "fd_open (bus pwm60) \<and> 0 < frequency pwm60 \<and> is_float (frequency pwm60) \<and>
   written (init_pca9685 pwm60) =
     Inr [(64, 0, 0), (64, 0, 16), (64, 254, 100), (64, 0, 0), (64, 0, 32)] \<and>
   prescale_written (PCA9685_new fresh_bus 0x40 (1491308088888889 / 2199023255552)) = Inr 8"
proof -
  have o: "fd_open (bus pwm60)" and f: "0 < frequency pwm60"
    and r: "is_float (frequency pwm60)"
    by (simp_all add: pwm60_simps is_float_def float_eval)
  from init_pca9685_prescale[OF o f r]
  obtain s t where
    1: "init_pca9685 pwm60 = Inr s"
       "writes (bus s) = writes (bus pwm60) @
             [(address pwm60, 0, 0), (address pwm60, 0, 16), (address pwm60, 0xFE, t),
              (address pwm60, 0, 0), (address pwm60, 0, 32)]"
       "truncation_of (prescale_float (frequency pwm60)) t"
    by blast
  have "t = 100" using truncation_of_unique[OF 1(3)] by (simp add: pwm60_def eval_examples)
  moreover
  let ?s = "\<lparr>bus = fresh_bus, address = 0x40, frequency = 1491308088888889 / 2199023255552\<rparr>"
  have o2: "fd_open (bus ?s)" and f2: "0 < frequency ?s" and r2: "is_float (frequency ?s)"
    by (simp_all add: fresh_bus_def is_float_def float_eval)
  from init_pca9685_prescale[OF o2 f2 r2]
  obtain s2 t2 where
    2: "init_pca9685 ?s = Inr s2" "regs (bus s2) (address ?s, 0xFE) = t2"
       "truncation_of (prescale_float (frequency ?s)) t2"
    by blast
  have "t2 = 8" using truncation_of_unique[OF 2(3)] by (simp add: eval_examples)
  moreover have "address s2 = 0x40"
    using init_pca9685_open [OF o2] 2(1) by simp
  ultimately show ?thesis using o f r 1 2
    by (simp add: written_def prescale_written_def PCA9685_new_def pwm60_def fresh_bus_def)
qed

text \<open>
  The claim as stated (round to nearest) fails at 60 Hz: the exact value is 100.725...,
  the code writes 100 and rounding gives 101.
\<close>

theorem init_pca9685_prescale_counterexample:
  "written (init_pca9685 pwm60) =
     Inr [(64, 0, 0), (64, 0, 16), (64, 254, 100), (64, 0, 0), (64, 0, 32)] \<and>
   round (25000000 / (4096 * 60) - 1 :: real) = 101"
proof -
  have "fd_open (bus pwm60)" "frequency pwm60 \<noteq> 0" by (simp_all add: pwm60_simps)
  from init_pca9685_open [OF this] show ?thesis
    by (auto simp: written_def pwm60_simps eval_examples round_def)
qed

text \<open>
  Claim C4. On an open bus, for frequencies \<open>0 < f1 \<le> f2\<close>, constructing the driver
  succeeds for both and the prescale written for \<open>f2\<close> is at most the one written for
  \<open>f1\<close>: the prescale is monotonically non-increasing in the frequency. For 60 Hz the
  prescale is exactly 100.
\<close>

theorem prescale_monotone:
  assumes "fd_open b" and "0 < f1" and "f1 \<le> f2"
  shows "(\<exists>p1 p2. PCA9685_new b a f1 = Inr p1 \<and> PCA9685_new b a f2 = Inr p2 \<and>
            regs (bus p2) (a, 0xFE) \<le> regs (bus p1) (a, 0xFE)) \<and>
         (\<exists>p. PCA9685_new b a 60 = Inr p \<and> regs (bus p) (a, 0xFE) = 100)"
proof
  let ?s1 = "\<lparr>bus = b, address = a, frequency = f1\<rparr>"
  let ?s2 = "\<lparr>bus = b, address = a, frequency = f2\<rparr>"
  have o1: "fd_open (bus ?s1)" and o2: "fd_open (bus ?s2)" using assms(1) by simp_all
  have n1: "frequency ?s1 \<noteq> 0" and n2: "frequency ?s2 \<noteq> 0" using assms(2,3) by simp_all
  from init_pca9685_open[OF o1 n1] obtain p1 where
    p1: "init_pca9685 ?s1 = Inr p1"
        "regs (bus p1) (a, 254) = py_int (prescale_float f1)" by auto
  from init_pca9685_open[OF o2 n2] obtain p2 where
    p2: "init_pca9685 ?s2 = Inr p2"
        "regs (bus p2) (a, 254) = py_int (prescale_float f2)" by auto
  have "py_int (prescale_float f2) \<le> py_int (prescale_float f1)"
    by (rule py_int_mono [OF prescale_float_antimono [OF assms(2,3)]])
  with p1 p2 show "\<exists>p1 p2. PCA9685_new b a f1 = Inr p1 \<and> PCA9685_new b a f2 = Inr p2 \<and>
            regs (bus p2) (a, 0xFE) \<le> regs (bus p1) (a, 0xFE)"
    by (simp add: PCA9685_new_def)
next
  let ?s = "\<lparr>bus = b, address = a, frequency = 60\<rparr>"
  have o: "fd_open (bus ?s)" using assms(1) by simp
  have n: "frequency ?s \<noteq> 0" by simp
  from init_pca9685_open[OF o n] obtain p where
    p: "init_pca9685 ?s = Inr p"
       "regs (bus p) (a, 254) = py_int (prescale_float 60)" by auto
  with eval_examples(9) show "\<exists>p. PCA9685_new b a 60 = Inr p \<and> regs (bus p) (a, 0xFE) = 100"
    by (simp add: PCA9685_new_def)
qed

theorem prescale_monotone_witness:
  "fd_open fresh_bus \<and> (0::real) < 50 \<and> (50::real) \<le> 60 \<and>
   prescale_written (PCA9685_new fresh_bus 0x40 50) = Inr 121 \<and>
   prescale_written (PCA9685_new fresh_bus 0x40 60) = Inr 100 \<and> (100::int) \<le> 121"
proof -
  have o: "fd_open fresh_bus" by (simp add: fresh_bus_def)
  have a: "(0::real) < 50" and b: "(50::real) \<le> 60" by simp_all
  from prescale_monotone[OF o a b, of 64] obtain p1 p2 where
    "PCA9685_new fresh_bus 64 50 = Inr p1" "PCA9685_new fresh_bus 64 60 = Inr p2"
    "regs (bus p2) (64, 0xFE) \<le> regs (bus p1) (64, 0xFE)" by blast
  moreover have "prescale_written (PCA9685_new fresh_bus 0x40 50) = Inr 121"
    using init_pca9685_open [of "\<lparr>bus = fresh_bus, address = 0x40, frequency = 50\<rparr>"]
    by (auto simp: prescale_written_def PCA9685_new_def fresh_bus_def eval_examples)
  moreover have "prescale_written (PCA9685_new fresh_bus 0x40 60) = Inr 100"
    using init_pca9685_open [of "\<lparr>bus = fresh_bus, address = 0x40, frequency = 60\<rparr>"]
    by (auto simp: prescale_written_def PCA9685_new_def fresh_bus_def eval_examples)
  ultimately show ?thesis using o by simp
qed

subsection \<open>Normalized commands\<close>

lemma set_steering_commands:
  "set_steering c x =
     commands c (steering_channel c)
       (fadd (steering_center c) (fmul (max (-1) (min 1 x)) (steering_range c)))"
proof -
  have "(if x < -1.0 then -1.0 else if x > 1.0 then 1.0 else x) = max (-1) (min 1 x)"
    by (auto simp: max_def min_def)
  then show ?thesis by (simp add: set_steering_def commands_def Let_def)
qed

lemma set_throttle_commands:
  "set_throttle c x =
     commands c (throttle_channel c)
       (fadd (throttle_neutral c) (fmul (max (-1) (min 1 x)) (throttle_range c)))"
proof -
  have "(if x < -1.0 then -1.0 else if x > 1.0 then 1.0 else x) = max (-1) (min 1 x)"
    by (auto simp: max_def min_def)
  then show ?thesis by (simp add: set_throttle_def commands_def Let_def)
qed

lemma calibrated_pulses:
  "fadd (dbl 1.8) (fmul (-1) 0.5) = dbl 1.3"
  "fadd (dbl 1.8) (fmul 1 0.5) = dbl 2.3"
  "fadd (dbl 1.8) (fmul 0 0.5) = dbl 1.8"
  "fadd 1.5 (fmul 0.5 (dbl 0.4)) = dbl 1.7"
  by (simp_all add: float_eval)

text \<open>
  Claim C5. With steering calibration channel 0, center 1.8 ms, range 0.5 ms (the values
  that \<^verbatim>\<open>DonkeyCarController.__init__\<close> sets), \<^verbatim>\<open>set_steering(-1.0)\<close> commands 1.3 ms on
  channel 0, \<^verbatim>\<open>set_steering(1.0)\<close> 2.3 ms and \<^verbatim>\<open>set_steering(0.0)\<close> 1.8 ms; with throttle
  calibration channel 1, neutral 1.5 ms, range 0.4 ms, \<^verbatim>\<open>set_throttle(0.5)\<close> commands
  1.7 ms on channel 1. The pulse widths are the floats \<^verbatim>\<open>1.3\<close>, \<^verbatim>\<open>2.3\<close>, \<^verbatim>\<open>1.8\<close> and
  \<^verbatim>\<open>1.7\<close>. In general, for every controller and every command, the commanded pulse is
  \<open>center + clamp(command) * range\<close> in float arithmetic, with the command clamped to
  \<open>[-1, 1]\<close>.
\<close>

theorem steering_throttle_pulse:
  "(steering_channel c = 0 \<and> steering_center c = dbl 1.8 \<and> steering_range c = 0.5 \<longrightarrow>
      set_steering c (-1.0) = commands c 0 (dbl 1.3) \<and>
      set_steering c 1.0 = commands c 0 (dbl 2.3) \<and>
      set_steering c 0.0 = commands c 0 (dbl 1.8)) \<and>
   (throttle_channel c = 1 \<and> throttle_neutral c = 1.5 \<and> throttle_range c = dbl 0.4 \<longrightarrow>
      set_throttle c 0.5 = commands c 1 (dbl 1.7)) \<and>
   set_steering c x = commands c (steering_channel c)
     (fadd (steering_center c) (fmul (max (-1) (min 1 x)) (steering_range c))) \<and>
   set_throttle c x = commands c (throttle_channel c)
     (fadd (throttle_neutral c) (fmul (max (-1) (min 1 x)) (throttle_range c)))"
proof (intro conjI impI)
  assume h: "steering_channel c = 0 \<and> steering_center c = dbl 1.8 \<and> steering_range c = 0.5"
  have s: "set_steering c y = commands c 0 (fadd (dbl 1.8) (fmul (max (-1) (min 1 y)) 0.5))" for y
    by (simp only: set_steering_commands h)
  have m: "max (-1) (min 1 (-1.0 :: real)) = -1" "max (-1) (min 1 (1.0 :: real)) = 1"
    "max (-1) (min 1 (0.0 :: real)) = 0" by simp_all
  show "set_steering c (-1.0) = commands c 0 (dbl 1.3)"
    by (simp only: s m calibrated_pulses)
  show "set_steering c 1.0 = commands c 0 (dbl 2.3)"
    by (simp only: s m calibrated_pulses)
  show "set_steering c 0.0 = commands c 0 (dbl 1.8)"
    by (simp only: s m calibrated_pulses)
next
  assume h: "throttle_channel c = 1 \<and> throttle_neutral c = 1.5 \<and> throttle_range c = dbl 0.4"
  have t: "set_throttle c y = commands c 1 (fadd 1.5 (fmul (max (-1) (min 1 y)) (dbl 0.4)))" for y
    by (simp only: set_throttle_commands h)
  have m: "max (-1) (min 1 (0.5 :: real)) = 0.5" by simp
  show "set_throttle c 0.5 = commands c 1 (dbl 1.7)"
    by (simp only: t m calibrated_pulses)
next
  show "set_steering c x = commands c (steering_channel c)
     (fadd (steering_center c) (fmul (max (-1) (min 1 x)) (steering_range c)))"
    by (rule set_steering_commands)
  show "set_throttle c x = commands c (throttle_channel c)
     (fadd (throttle_neutral c) (fmul (max (-1) (min 1 x)) (throttle_range c)))"
    by (rule set_throttle_commands)
qed

text \<open>
  On the controller of the script at 60 Hz, and after \<^verbatim>\<open>set_steering_center(1.5)\<close>, where
  the general formula gives the float \<^verbatim>\<open>2.0\<close> for full right.
\<close>

theorem steering_throttle_pulse_witness:
  "steering_channel car60 = 0 \<and> steering_center car60 = dbl 1.8 \<and> steering_range car60 = 0.5 \<and>
   throttle_channel car60 = 1 \<and> throttle_neutral car60 = 1.5 \<and> throttle_range car60 = dbl 0.4 \<and>
   set_steering car60 (-1.0) = commands car60 0 (dbl 1.3) \<and>
   set_steering car60 1.0 = commands car60 0 (dbl 2.3) \<and>
   set_steering car60 0.0 = commands car60 0 (dbl 1.8) \<and>
   set_throttle car60 0.5 = commands car60 1 (dbl 1.7) \<and>
   written (map_sum id pwm (set_steering car60 (-1.0))) = Inr (pulse_writes 64 0 319) \<and>
   written (map_sum id pwm (set_throttle car60 0.5)) = Inr (pulse_writes 64 1 417) \<and>
   written (map_sum id pwm (set_steering (set_steering_center car60 1.5) 1.0)) =
     Inr (pulse_writes 64 0 491)"
proof -
  have f: "steering_channel car60 = 0 \<and> steering_center car60 = dbl 1.8 \<and>
      steering_range car60 = 0.5"
    "throttle_channel car60 = 1 \<and> throttle_neutral car60 = 1.5 \<and>
      throttle_range car60 = dbl 0.4"
    by (simp_all add: car60_def)
  note th = steering_throttle_pulse[of car60 1]
  note th2 = steering_throttle_pulse[of "set_steering_center car60 1.5" 1]
  have cw: "written (map_sum id pwm (commands c ch pulse)) = written (set_pulse (pwm c) ch pulse)"
    for c ch pulse
    by (cases "set_pulse (pwm c) ch pulse") (simp_all add: commands_def bindE_def written_def)
  have w1: "written (map_sum id pwm (commands car60 0 (dbl 1.3))) = Inr (pulse_writes 64 0 319)"
    by (simp add: cw car60_def written_set_pulse pwm60_simps dbl_literals eval_literals)
  have w2: "written (map_sum id pwm (commands car60 1 (dbl 1.7))) = Inr (pulse_writes 64 1 417)"
    by (simp add: cw car60_def written_set_pulse pwm60_simps dbl_literals eval_literals)
  have g: "set_steering (set_steering_center car60 1.5) 1.0 =
      commands (set_steering_center car60 1.5) 0 (fadd 1.5 (fmul 1 0.5))"
    using th2 by (simp add: set_steering_center_def car60_def)
  have "fadd 1.5 (fmul 1 0.5) = 2" by (simp add: float_eval)
  then have w3: "written (map_sum id pwm
        (commands (set_steering_center car60 1.5) 0 (fadd 1.5 (fmul 1 0.5)))) =
      Inr (pulse_writes 64 0 491)"
    by (simp add: cw set_steering_center_def car60_def written_set_pulse pwm60_simps
        eval_literals)
  show ?thesis using f th w1 w2 w3 unfolding g by simp
qed

subsection \<open>Stopping all channels\<close>

lemma stop_channel_open:
  "fd_open (bus self) \<Longrightarrow>
   stop_channel self ch =
     Inr (self\<lparr>bus := (bus self)\<lparr>
        regs := (regs (bus self))
          ((address self, 6 + 4 * ch) := 0,
           (address self, 6 + 4 * ch + 1) := 0,
           (address self, 6 + 4 * ch + 2) := 0,
           (address self, 6 + 4 * ch + 3) := 0),
        writes := writes (bus self) @ pulse_writes (address self) ch 0\<rparr>\<rparr>)"
  by (simp add: stop_channel_def write_byte_data_def bindE_def Let_def pulse_writes_def)

lemma offset_cases: "k \<in> {0..3} \<Longrightarrow> k = 0 \<or> k = 1 \<or> k = 2 \<or> k = (3::int)"
  by auto

lemma stop_channels_open:
  "fd_open (bus self) \<Longrightarrow>
   \<exists>self'. stop_channels self chs = Inr self' \<and>
     fd_open (bus self') \<and> address self' = address self \<and> frequency self' = frequency self \<and>
     writes (bus self') =
       writes (bus self) @ concat (map (\<lambda>ch. pulse_writes (address self) ch 0) chs) \<and>
     (\<forall>r. regs (bus self) r = 0 \<longrightarrow> regs (bus self') r = 0) \<and>
     (\<forall>ch\<in>set chs. \<forall>k\<in>{0..3}. regs (bus self') (address self, 6 + 4 * ch + k) = 0)"
proof (induction chs arbitrary: self)
  case Nil
  then show ?case by simp
next
  case (Cons c chs)
  let ?s1 = "self\<lparr>bus := (bus self)\<lparr>
        regs := (regs (bus self))
          ((address self, 6 + 4 * c) := 0,
           (address self, 6 + 4 * c + 1) := 0,
           (address self, 6 + 4 * c + 2) := 0,
           (address self, 6 + 4 * c + 3) := 0),
        writes := writes (bus self) @ pulse_writes (address self) c 0\<rparr>\<rparr>"
  have 1: "stop_channel self c = Inr ?s1" by (rule stop_channel_open [OF Cons.prems])
  have o1: "fd_open (bus ?s1)" using Cons.prems by simp
  from Cons.IH [OF o1] obtain s' where
    s': "stop_channels ?s1 chs = Inr s'" "fd_open (bus s')" "address s' = address self"
        "frequency s' = frequency self"
        "writes (bus s') =
           writes (bus ?s1) @ concat (map (\<lambda>ch. pulse_writes (address ?s1) ch 0) chs)"
        "\<forall>r. regs (bus ?s1) r = 0 \<longrightarrow> regs (bus s') r = 0"
        "\<forall>ch\<in>set chs. \<forall>k\<in>{0..3}. regs (bus s') (address ?s1, 6 + 4 * ch + k) = 0"
    by auto
  have keep: "\<forall>r. regs (bus self) r = 0 \<longrightarrow> regs (bus s') r = 0"
    using s'(6) by simp
  have here: "\<forall>k\<in>{0..3}. regs (bus s') (address self, 6 + 4 * c + k) = 0"
  proof
    fix k :: int assume "k \<in> {0..3}"
    then have "regs (bus ?s1) (address self, 6 + 4 * c + k) = 0"
      by (auto dest!: offset_cases)
    with s'(6) show "regs (bus s') (address self, 6 + 4 * c + k) = 0" by blast
  qed
  have "stop_channels self (c # chs) = Inr s'"
    using 1 s'(1) by (simp add: bindE_def)
  moreover have "writes (bus s') =
       writes (bus self) @ concat (map (\<lambda>ch. pulse_writes (address self) ch 0) (c # chs))"
    using s'(5) by simp
  moreover have "\<forall>ch\<in>set (c # chs). \<forall>k\<in>{0..3}. regs (bus s') (address self, 6 + 4 * ch + k) = 0"
    using here s'(7) by simp
  ultimately show ?case using s'(2,3,4) keep by blast
qed

lemma set_upto_0_15: "set [0..15] = {0..15::int}"
  by simp

text \<open>
  Claim C6. On an open bus \<^verbatim>\<open>stop_all_channels\<close> returns, and afterwards each of the four
  registers (ON-low, ON-high, OFF-low, OFF-high) of each of the 16 channels holds 0,
  whatever the registers held before: the loop writes 0 to the four registers of channels
  0 to 15 in turn, so ON ticks and OFF ticks are 0 on every channel.
\<close>

theorem stop_all_channels_zero:
  assumes "fd_open (bus self)"
  shows "\<exists>self'. stop_all_channels self = Inr self' \<and>
           writes (bus self') =
             writes (bus self) @ concat (map (\<lambda>ch. pulse_writes (address self) ch 0) [0..15]) \<and>
           (\<forall>ch\<in>{0..15}. \<forall>k\<in>{0..3}. regs (bus self') (address self, 6 + 4 * ch + k) = 0)"
  using stop_channels_open [OF assms, of "[0..15]"]
  unfolding stop_all_channels_def set_upto_0_15 by blast

theorem stop_all_channels_zero_witness:
  "fd_open (bus stale_pwm) \<and>
   regs (bus stale_pwm) (64, 6) = 200 \<and> regs (bus stale_pwm) (64, 69) = 200 \<and>
   (case stop_all_channels stale_pwm of
      Inl e \<Rightarrow> False
    | Inr p \<Rightarrow> regs (bus p) (64, 6) = 0 \<and> regs (bus p) (64, 40) = 0 \<and>
               regs (bus p) (64, 69) = 0)"
proof -
  have o: "fd_open (bus stale_pwm)" by (simp add: stale_pwm_def)
  have a: "address stale_pwm = 64" by (simp add: stale_pwm_def)
  from stop_all_channels_zero [OF o] obtain p where
    p: "stop_all_channels stale_pwm = Inr p"
       "\<forall>ch\<in>{0..15}. \<forall>k\<in>{0..3}. regs (bus p) (64, 6 + 4 * ch + k) = 0"
    unfolding a by blast
  have z: "regs (bus p) (64, 6 + 4 * ch + k) = 0" if "ch \<in> {0..15}" and "k \<in> {0..3}" for ch k
    using p(2) that by blast
  have "regs (bus p) (64, 6) = 0" using z [of 0 0] by simp
  moreover have "regs (bus p) (64, 40) = 0" using z [of 8 2] by simp
  moreover have "regs (bus p) (64, 69) = 0" using z [of 15 3] by simp
  ultimately show ?thesis using o p(1) by (simp add: stale_pwm_def)
qed

subsection \<open>The raw tick write\<close>

text \<open>
  Claim C7, as the code has it. \<^verbatim>\<open>set_pwm\<close> does not validate the channel: for every
  channel, inside or outside \<open>[0, 15]\<close>, on an open bus it succeeds and writes the four
  consecutive registers starting at \<open>0x06 + 4 * channel\<close> with \<^verbatim>\<open>on & 0xFF\<close>,
  \<^verbatim>\<open>on >> 8\<close>, \<^verbatim>\<open>off & 0xFF\<close> and \<^verbatim>\<open>off >> 8\<close>. No channel makes it fail.
\<close>

theorem set_pwm_any_channel:
  assumes "fd_open (bus self)"
  shows "\<exists>self'. set_pwm self ch on off = Inr self' \<and>
           writes (bus self') = writes (bus self) @
             [(address self, 0x06 + 4 * ch, on AND 0xFF),
              (address self, 0x06 + 4 * ch + 1, drop_bit 8 on),
              (address self, 0x06 + 4 * ch + 2, off AND 0xFF),
              (address self, 0x06 + 4 * ch + 3, drop_bit 8 off)]"
  by (simp add: set_pwm_open [OF assms])

theorem set_pwm_any_channel_witness:
  "fd_open (bus pwm60) \<and>
   written (set_pwm pwm60 3 0 368) = Inr [(64, 18, 0), (64, 19, 0), (64, 20, 112), (64, 21, 1)] \<and>
   written (set_pwm pwm60 (-1) 0 368) = Inr [(64, 2, 0), (64, 3, 0), (64, 4, 112), (64, 5, 1)]"
proof -
  have o: "fd_open (bus pwm60)" by (simp add: pwm60_def fresh_bus_def)
  from set_pwm_any_channel [OF o, of 3 0 368] set_pwm_any_channel [OF o, of "-1" 0 368]
  show ?thesis using o
    by (auto simp: written_def pwm60_def fresh_bus_def)
qed

text \<open>
  The claim as stated (a channel outside \<open>[0, 15]\<close> is rejected before any write) fails
  at channel 16: the call succeeds and writes registers 70 to 73.
\<close>

theorem set_pwm_any_channel_counterexample:
  "written (set_pwm pwm60 16 0 368) =
     Inr [(64, 70, 0), (64, 71, 0), (64, 72, 112), (64, 73, 1)]"
  by (simp add: written_def set_pwm_def write_byte_data_def bindE_def Let_def
      pwm60_def fresh_bus_def)

subsection \<open>Range of the ticks and of the bytes written\<close>

lemma ticks60_bounds:
  "122 \<le> py_int (pulse_quotient 60 (max (1/2) (min (5/2) p))) \<and>
   py_int (pulse_quotient 60 (max (1/2) (min (5/2) p))) \<le> 614"
proof -
  let ?c = "max (1/2) (min (5/2) p) :: real"
  have lo: "pulse_quotient 60 (1/2) \<le> pulse_quotient 60 ?c"
    by (rule pulse_quotient_mono) simp_all
  have hi: "pulse_quotient 60 ?c \<le> pulse_quotient 60 (5/2)"
    by (rule pulse_quotient_mono) simp_all
  show ?thesis
    using py_int_mono [OF lo] py_int_mono [OF hi] by (simp add: eval_examples)
qed

lemma demo_ticks60_bounds:
  assumes "0 \<le> q" and "q \<le> 16.666"
  shows "0 \<le> py_int (pulse_quotient 60 q) \<and> py_int (pulse_quotient 60 q) \<le> 4095"
proof -
  have lo: "pulse_quotient 60 0 \<le> pulse_quotient 60 q"
    by (rule pulse_quotient_mono) (simp_all add: assms)
  have "q \<le> 16666 / 1000" using assms(2) by simp
  then have hi: "pulse_quotient 60 q \<le> pulse_quotient 60 (16666 / 1000)"
    by (intro pulse_quotient_mono) simp_all
  have "py_int (pulse_quotient 60 0) \<le> py_int (pulse_quotient 60 q)"
    by (rule py_int_mono [OF lo])
  moreover have "py_int (pulse_quotient 60 q) \<le> py_int (pulse_quotient 60 (16666 / 1000))"
    by (rule py_int_mono [OF hi])
  ultimately show ?thesis unfolding eval_examples by simp
qed

lemma byte_bounds:
  assumes "0 \<le> t" and "t \<le> 614"
  shows "0 \<le> t AND 255 \<and> t AND 255 \<le> 255 \<and> 0 \<le> drop_bit 8 t \<and> drop_bit 8 t \<le> (2::int)"
proof -
  have "t AND 255 \<le> 255" by (rule AND_upper2) simp
  moreover have "0 \<le> t AND 255" by simp
  moreover have "drop_bit 8 t = t div 256" by (simp add: drop_bit_eq_div)
  moreover have "0 \<le> t div 256" "t div 256 \<le> 2" using assms by simp_all
  ultimately show ?thesis by simp
qed

lemma pulse_writes_inject:
  "pulse_writes a ch t = pulse_writes a ch t' \<Longrightarrow> t = t'"
proof -
  assume "pulse_writes a ch t = pulse_writes a ch t'"
  then have "t AND 255 = t' AND 255" "drop_bit 8 t = drop_bit 8 t'"
    by (simp_all add: pulse_writes_def)
  then have "take_bit 8 t = take_bit 8 t'" "drop_bit 8 t = drop_bit 8 t'"
    by (simp_all add: take_bit_eq_mask mask_eq_exp_minus_1)
  then show ?thesis
    by (metis bits_ident)
qed

text \<open>
  Claim C9, as the code has it. At 60 Hz, the only frequency the scripts use, every
  channel write of \<^verbatim>\<open>set_pulse\<close> has ON ticks 0 (both ON bytes are 0), for every pulse
  width and in both variants. With the clamping \<^verbatim>\<open>set_pulse\<close> of donkey_motor_test.py the
  OFF ticks are in \<open>[0, 4095]\<close> for every pulse width. With the \<^verbatim>\<open>set_pulse\<close> of
  demo_script.py, which does not clamp, the OFF ticks are in \<open>[0, 4095]\<close> for the pulse
  widths from 0 to 16.666 ms, among them the widths the demo passes (1.5, 1.8, 1.67,
  1.55).
\<close>

theorem set_pulse_ticks_range:
  assumes "fd_open (bus self)" and "frequency self = 60"
  shows "(\<exists>self' t. set_pulse self ch p = Inr self' \<and>
           writes (bus self') = writes (bus self) @ pulse_writes (address self) ch t \<and>
           0 \<le> t \<and> t \<le> 4095) \<and>
         (\<exists>self' t. demo_set_pulse self ch q = Inr self' \<and>
           writes (bus self') = writes (bus self) @ pulse_writes (address self) ch t \<and>
           (0 \<le> q \<and> q \<le> 16.666 \<longrightarrow> 0 \<le> t \<and> t \<le> 4095))"
proof (intro conjI)
  have f: "frequency self \<noteq> 0" using assms(2) by simp
  let ?t = "py_int (pulse_quotient 60 (max (1/2) (min (5/2) p)))"
  have "set_pulse self ch p = set_pwm self ch 0 ?t"
    using set_pulse_eq [OF f, of ch p] by (simp add: assms(2))
  moreover have "0 \<le> ?t \<and> ?t \<le> 4095" using ticks60_bounds [of p] by linarith
  ultimately show "\<exists>self' t. set_pulse self ch p = Inr self' \<and>
           writes (bus self') = writes (bus self) @ pulse_writes (address self) ch t \<and>
           0 \<le> t \<and> t \<le> 4095"
    using set_pwm_pulse_writes [OF assms(1), of ch ?t] by auto
next
  have f: "frequency self \<noteq> 0" using assms(2) by simp
  let ?t = "py_int (pulse_quotient 60 q)"
  have "demo_set_pulse self ch q = set_pwm self ch 0 ?t"
    using calib_set_pulse_eq [OF f, of ch q] by (simp add: assms(2) demo_set_pulse_calib)
  moreover have "0 \<le> q \<and> q \<le> 16.666 \<longrightarrow> 0 \<le> ?t \<and> ?t \<le> 4095"
    using demo_ticks60_bounds by blast
  ultimately show "\<exists>self' t. demo_set_pulse self ch q = Inr self' \<and>
           writes (bus self') = writes (bus self) @ pulse_writes (address self) ch t \<and>
           (0 \<le> q \<and> q \<le> 16.666 \<longrightarrow> 0 \<le> t \<and> t \<le> 4095)"
    using set_pwm_pulse_writes [OF assms(1), of ch ?t] by auto
qed

text \<open>
  At 60 Hz: 100 ms is clamped and written as 614 ticks by donkey_motor_test.py; the
  float \<^verbatim>\<open>1.67\<close> is written as 410 ticks, and 20 ms as 4915 ticks with ON bytes 0, by
  demo_script.py.
\<close>

theorem set_pulse_ticks_range_witness:
  "fd_open (bus pwm60) \<and> frequency pwm60 = 60 \<and> 0 \<le> dbl 1.67 \<and> dbl 1.67 \<le> 16.666 \<and>
   written (set_pulse pwm60 1 100) = Inr (pulse_writes 64 1 614) \<and>
   written (demo_set_pulse pwm60 1 (dbl 1.67)) = Inr (pulse_writes 64 1 410) \<and>
   (0::int) \<le> 410 \<and> (410::int) \<le> 4095 \<and>
   written (demo_set_pulse pwm60 1 20) = Inr (pulse_writes 64 1 4915)"
proof -
  have o: "fd_open (bus pwm60)" and f: "frequency pwm60 = 60"
    by (simp_all add: pwm60_def fresh_bus_def)
  have d: "dbl 1.67 = 940126422213591 / 562949953421312" by (rule dbl_literals)
  have q: "0 \<le> dbl 1.67 \<and> dbl 1.67 \<le> 16.666" unfolding d by simp
  from set_pulse_ticks_range [OF o f, of 1 100 "dbl 1.67"] q
  obtain s1 s2 and t1 t2 :: int where
    1: "set_pulse pwm60 1 100 = Inr s1" "0 \<le> t1" "t1 \<le> 4095" and
    2: "demo_set_pulse pwm60 1 (dbl 1.67) = Inr s2"
       "writes (bus s2) = writes (bus pwm60) @ pulse_writes (address pwm60) 1 t2"
       "0 \<le> t2" "t2 \<le> 4095"
    by auto
  from set_pulse_ticks_range [OF o f, of 1 100 20]
  obtain s3 and t3 :: int where
    3: "demo_set_pulse pwm60 1 20 = Inr s3"
       "writes (bus s3) = writes (bus pwm60) @ pulse_writes (address pwm60) 1 t3"
    by auto
  have "written (set_pulse pwm60 1 100) = Inr (pulse_writes 64 1 614)"
    by (simp add: written_set_pulse pwm60_simps eval_examples)
  moreover have "written (demo_set_pulse pwm60 1 (dbl 1.67)) = Inr (pulse_writes 64 1 410)"
    unfolding d by (simp add: written_demo_set_pulse pwm60_simps eval_literals)
  moreover have "written (demo_set_pulse pwm60 1 20) = Inr (pulse_writes 64 1 4915)"
    by (simp add: written_demo_set_pulse pwm60_simps eval_examples)
  ultimately show ?thesis using o f q 1 2 3 by simp
qed

text \<open>
  The claim as stated (every input pulse width) fails on demo_script.py: at 60 Hz a pulse
  width of 20 ms is converted to 4915 ticks (\<open>51 + 19 * 256\<close>), beyond 4095.
\<close>

theorem set_pulse_ticks_range_counterexample:
  "written (demo_set_pulse pwm60 0 20) = Inr [(64, 6, 0), (64, 7, 0), (64, 8, 51), (64, 9, 19)] \<and>
   (51::int) + 256 * 19 = 4915 \<and> (4095::int) < 4915"
  by (simp add: written_demo_set_pulse pwm60_simps eval_examples pulse_writes_def)

text \<open>
  Claim C10. With the clamping \<^verbatim>\<open>set_pulse\<close> of donkey_motor_test.py at 60 Hz, for every
  channel in \<open>[0, 15]\<close> and every pulse width, the call succeeds on an open bus and each of
  the four values passed to \<^verbatim>\<open>write_byte_data\<close> lies in \<open>[0, 255]\<close>; the OFF high byte
  (the ticks shifted right by 8) is at most 2. The register numbers lie in \<open>[0, 255]\<close>
  as well.
\<close>

theorem set_pulse_bytes:
  assumes "fd_open (bus self)" and "frequency self = 60" and "0 \<le> ch" and "ch \<le> 15"
  shows "\<exists>self' v0 v1 v2 v3. set_pulse self ch p = Inr self' \<and>
           writes (bus self') = writes (bus self) @
             [(address self, 0x06 + 4 * ch, v0), (address self, 0x06 + 4 * ch + 1, v1),
              (address self, 0x06 + 4 * ch + 2, v2), (address self, 0x06 + 4 * ch + 3, v3)] \<and>
           0 \<le> v0 \<and> v0 \<le> 255 \<and> 0 \<le> v1 \<and> v1 \<le> 255 \<and>
           0 \<le> v2 \<and> v2 \<le> 255 \<and> 0 \<le> v3 \<and> v3 \<le> 2 \<and>
           0 \<le> 0x06 + 4 * ch \<and> 0x06 + 4 * ch + 3 \<le> 255"
proof -
  have f: "frequency self \<noteq> 0" using assms(2) by simp
  let ?t = "py_int (pulse_quotient 60 (max (1/2) (min (5/2) p)))"
  have e: "set_pulse self ch p = set_pwm self ch 0 ?t"
    using set_pulse_eq [OF f, of ch p] by (simp add: assms(2))
  have "0 \<le> ?t" "?t \<le> 614" using ticks60_bounds [of p] by linarith+
  from byte_bounds [OF this]
  have b: "0 \<le> ?t AND 255" "?t AND 255 \<le> 255" "0 \<le> drop_bit 8 ?t" "drop_bit 8 ?t \<le> 2"
    by simp_all
  have r: "0 \<le> 0x06 + 4 * ch \<and> 0x06 + 4 * ch + 3 \<le> 255" using assms(3,4) by simp
  show ?thesis
    unfolding e set_pwm_open [OF assms(1)]
    using b r by simp
qed

theorem set_pulse_bytes_witness:
  "fd_open (bus pwm60) \<and> frequency pwm60 = 60 \<and> (0::int) \<le> 15 \<and> (15::int) \<le> 15 \<and>
   written (set_pulse pwm60 15 100) = Inr [(64, 66, 0), (64, 67, 0), (64, 68, 102), (64, 69, 2)]"
proof -
  have o: "fd_open (bus pwm60)" and f: "frequency pwm60 = 60"
    by (simp_all add: pwm60_def fresh_bus_def)
  from set_pulse_bytes [OF o f, of 15 100]
  obtain s where "set_pulse pwm60 15 100 = Inr s" by auto
  moreover have "written (set_pulse pwm60 15 100) =
      Inr [(64, 66, 0), (64, 67, 0), (64, 68, 102), (64, 69, 2)]"
    by (simp add: written_set_pulse pwm60_simps eval_examples pulse_writes_def)
  ultimately show ?thesis using o f by simp
qed

subsection \<open>Shutdown\<close>

lemma set_pulse_open:
  assumes "fd_open (bus self)" and "frequency self \<noteq> 0"
  shows "\<exists>self'. set_pulse self ch p = Inr self' \<and> fd_open (bus self') \<and>
           address self' = address self \<and> frequency self' = frequency self"
  using set_pwm_pulse_writes [OF assms(1)] by (metis set_pulse_eq [OF assms(2)])

lemma demo_set_pulse_open:
  assumes "fd_open (bus self)" and "frequency self \<noteq> 0"
  shows "\<exists>self'. demo_set_pulse self ch p = Inr self' \<and> fd_open (bus self') \<and>
           address self' = address self \<and> frequency self' = frequency self"
  using set_pwm_pulse_writes [OF assms(1)]
  by (metis calib_set_pulse_eq [OF assms(2)] demo_set_pulse_calib)

lemma set_pulse_closed:
  "\<not> fd_open (bus self) \<Longrightarrow> frequency self \<noteq> 0 \<Longrightarrow> set_pulse self ch p = Inl BusClosed"
  by (simp add: set_pulse_eq set_pwm_closed)

lemma demo_set_pulse_closed:
  "\<not> fd_open (bus self) \<Longrightarrow> frequency self \<noteq> 0 \<Longrightarrow> demo_set_pulse self ch p = Inl BusClosed"
  by (simp add: demo_set_pulse_calib calib_set_pulse_eq set_pwm_closed)
lemma stop_open:
  assumes "fd_open (bus (pwm c))" and "frequency (pwm c) \<noteq> 0"
  shows "\<exists>c'. stop c = Inr c' \<and> fd_open (bus (pwm c')) \<and>
           address (pwm c') = address (pwm c) \<and> frequency (pwm c') = frequency (pwm c)"
proof -
  from set_pulse_open [OF assms] obtain p1 where
    p1: "set_pulse (pwm c) (throttle_channel c)
           (fadd (throttle_neutral c) (fmul (max (-1) (min 1 0)) (throttle_range c))) = Inr p1"
        "fd_open (bus p1)" "address p1 = address (pwm c)" "frequency p1 = frequency (pwm c)"
    by blast
  let ?c1 = "c\<lparr>pwm := p1\<rparr>"
  have t: "set_throttle c 0 = Inr ?c1"
    using p1(1) by (simp add: set_throttle_commands commands_def bindE_def)
  have o1: "fd_open (bus (pwm ?c1))" and f1: "frequency (pwm ?c1) \<noteq> 0"
    using p1 assms(2) by simp_all
  from set_pulse_open [OF o1 f1] obtain p2 where
    p2: "set_pulse (pwm ?c1) (steering_channel ?c1)
           (fadd (steering_center ?c1) (fmul (max (-1) (min 1 0)) (steering_range ?c1))) = Inr p2"
        "fd_open (bus p2)" "address p2 = address (pwm ?c1)" "frequency p2 = frequency (pwm ?c1)"
    by blast
  have "set_steering ?c1 0 = Inr (?c1\<lparr>pwm := p2\<rparr>)"
    using p2(1) by (simp add: set_steering_commands commands_def bindE_def)
  then have "stop c = Inr (?c1\<lparr>pwm := p2\<rparr>)"
    using t by (simp add: stop_def bindE_def)
  then show ?thesis using p1 p2 by simp
qed

lemma demo_stop_open:
  assumes "fd_open (bus (demo_pwm d))" and "frequency (demo_pwm d) \<noteq> 0"
  shows "\<exists>d'. demo_stop d = Inr d' \<and> fd_open (bus (demo_pwm d')) \<and>
           address (demo_pwm d') = address (demo_pwm d) \<and>
           frequency (demo_pwm d') = frequency (demo_pwm d)"
proof -
  from demo_set_pulse_open [OF assms] obtain p1 where
    p1: "demo_set_pulse (demo_pwm d) (demo_throttle_channel d) (demo_throttle_neutral d) = Inr p1"
        "fd_open (bus p1)" "address p1 = address (demo_pwm d)"
        "frequency p1 = frequency (demo_pwm d)"
    by blast
  let ?d1 = "d\<lparr>demo_pwm := p1\<rparr>"
  have t: "demo_set_throttle d (demo_throttle_neutral d) = Inr ?d1"
    using p1(1) by (simp add: demo_set_throttle_def bindE_def)
  have o1: "fd_open (bus (demo_pwm ?d1))" and f1: "frequency (demo_pwm ?d1) \<noteq> 0"
    using p1 assms(2) by simp_all
  from demo_set_pulse_open [OF o1 f1] obtain p2 where
    p2: "demo_set_pulse (demo_pwm ?d1) (demo_steering_channel ?d1) (demo_steering_center ?d1) = Inr p2"
        "fd_open (bus p2)" "address p2 = address (demo_pwm ?d1)"
        "frequency p2 = frequency (demo_pwm ?d1)"
    by blast
  have "demo_set_steering ?d1 (demo_steering_center ?d1) = Inr (?d1\<lparr>demo_pwm := p2\<rparr>)"
    using p2(1) by (simp add: demo_set_steering_def bindE_def)
  then have "demo_stop d = Inr (?d1\<lparr>demo_pwm := p2\<rparr>)"
    using t by (simp add: demo_stop_def bindE_def)
  then show ?thesis using p1 p2 by simp
qed

lemma stop_all_then_close:
  assumes "fd_open (bus p)"
  shows "\<exists>p'. bindE (stop_all_channels p) close = Inr p' \<and> \<not> fd_open (bus p') \<and>
           address p' = address p \<and> frequency p' = frequency p \<and>
           (\<forall>ch\<in>{0..15}. \<forall>k\<in>{0..3}. regs (bus p') (address p, 6 + 4 * ch + k) = 0)"
proof -
  from stop_channels_open [OF assms, of "[0..15]"] obtain p1 where
    p1: "stop_all_channels p = Inr p1" "fd_open (bus p1)" "address p1 = address p"
        "frequency p1 = frequency p"
        "\<forall>ch\<in>{0..15}. \<forall>k\<in>{0..3}. regs (bus p1) (address p, 6 + 4 * ch + k) = 0"
    unfolding stop_all_channels_def set_upto_0_15 by blast
  have "close p1 = Inr (p1\<lparr>bus := (bus p1)\<lparr>fd_open := False\<rparr>\<rparr>)"
    using p1(2) by (simp add: close_def bus_close_def bindE_def)
  then show ?thesis using p1 by (simp add: bindE_def)
qed

lemma cleanup_open:
  assumes "fd_open (bus (pwm c))" and "frequency (pwm c) \<noteq> 0"
  shows "\<exists>c'. cleanup c = Inr c' \<and> \<not> fd_open (bus (pwm c')) \<and>
           frequency (pwm c') = frequency (pwm c) \<and>
           (\<forall>ch\<in>{0..15}. \<forall>k\<in>{0..3}. regs (bus (pwm c')) (address (pwm c), 6 + 4 * ch + k) = 0)"
proof -
  from stop_open [OF assms] obtain c1 where
    c1: "stop c = Inr c1" "fd_open (bus (pwm c1))" "address (pwm c1) = address (pwm c)"
        "frequency (pwm c1) = frequency (pwm c)" by blast
  from stop_all_then_close [OF c1(2)] obtain p' where
    p': "bindE (stop_all_channels (pwm c1)) close = Inr p'" "\<not> fd_open (bus p')"
        "frequency p' = frequency (pwm c1)"
        "\<forall>ch\<in>{0..15}. \<forall>k\<in>{0..3}. regs (bus p') (address (pwm c1), 6 + 4 * ch + k) = 0"
    by blast
  have "cleanup c = Inr (c1\<lparr>pwm := p'\<rparr>)"
    using c1(1) p'(1) by (auto simp: cleanup_def bindE_def split: sum.splits)
  then show ?thesis using p' c1 by simp
qed

lemma cleanup_closed:
  assumes "\<not> fd_open (bus (pwm c))" and "frequency (pwm c) \<noteq> 0"
  shows "cleanup c = Inl BusClosed"
  using set_pulse_closed [OF assms]
  by (simp add: cleanup_def stop_def set_throttle_commands commands_def bindE_def)

lemma demo_cleanup_open:
  assumes "fd_open (bus (demo_pwm d))" and "frequency (demo_pwm d) \<noteq> 0"
  shows "\<exists>d'. demo_cleanup d = Inr d' \<and> \<not> fd_open (bus (demo_pwm d')) \<and>
           frequency (demo_pwm d') = frequency (demo_pwm d) \<and>
           (\<forall>ch\<in>{0..15}. \<forall>k\<in>{0..3}.
              regs (bus (demo_pwm d')) (address (demo_pwm d), 6 + 4 * ch + k) = 0)"
proof -
  from demo_stop_open [OF assms] obtain d1 where
    d1: "demo_stop d = Inr d1" "fd_open (bus (demo_pwm d1))"
        "address (demo_pwm d1) = address (demo_pwm d)"
        "frequency (demo_pwm d1) = frequency (demo_pwm d)" by blast
  from stop_all_then_close [OF d1(2)] obtain p' where
    p': "bindE (stop_all_channels (demo_pwm d1)) close = Inr p'" "\<not> fd_open (bus p')"
        "frequency p' = frequency (demo_pwm d1)"
        "\<forall>ch\<in>{0..15}. \<forall>k\<in>{0..3}. regs (bus p') (address (demo_pwm d1), 6 + 4 * ch + k) = 0"
    by blast
  have "demo_cleanup d = Inr (d1\<lparr>demo_pwm := p'\<rparr>)"
    using d1(1) p'(1) by (auto simp: demo_cleanup_def bindE_def split: sum.splits)
  then show ?thesis using p' d1 by simp
qed

lemma demo_cleanup_closed:
  assumes "\<not> fd_open (bus (demo_pwm d))" and "frequency (demo_pwm d) \<noteq> 0"
  shows "demo_cleanup d = Inl BusClosed"
  using demo_set_pulse_closed [OF assms]
  by (simp add: demo_cleanup_def demo_stop_def demo_set_throttle_def bindE_def)

text \<open>
  Claim C8, as the code has it. \<^verbatim>\<open>cleanup\<close> (DonkeyCarController and PiRacerDemo) is not
  idempotent. Called on a controller whose bus is open (and whose frequency is not 0) it
  succeeds and leaves the four registers of all 16 channels at 0 and the bus released.
  Called a second time it does not succeed: nothing guards against the released bus, and
  the first register write of \<^verbatim>\<open>stop\<close> fails on it.
\<close>

theorem cleanup_once:
  assumes "fd_open (bus (pwm c))" and "frequency (pwm c) \<noteq> 0"
    and "fd_open (bus (demo_pwm d))" and "frequency (demo_pwm d) \<noteq> 0"
  shows "(\<exists>c'. cleanup c = Inr c' \<and> \<not> fd_open (bus (pwm c')) \<and>
            (\<forall>ch\<in>{0..15}. \<forall>k\<in>{0..3}.
               regs (bus (pwm c')) (address (pwm c), 6 + 4 * ch + k) = 0) \<and>
            cleanup c' = Inl BusClosed) \<and>
         (\<exists>d'. demo_cleanup d = Inr d' \<and> \<not> fd_open (bus (demo_pwm d')) \<and>
            (\<forall>ch\<in>{0..15}. \<forall>k\<in>{0..3}.
               regs (bus (demo_pwm d')) (address (demo_pwm d), 6 + 4 * ch + k) = 0) \<and>
            demo_cleanup d' = Inl BusClosed)"
proof
  from cleanup_open [OF assms(1,2)] obtain c' where
    c': "cleanup c = Inr c'" "\<not> fd_open (bus (pwm c'))" "frequency (pwm c') = frequency (pwm c)"
        "\<forall>ch\<in>{0..15}. \<forall>k\<in>{0..3}. regs (bus (pwm c')) (address (pwm c), 6 + 4 * ch + k) = 0"
    by blast
  have "cleanup c' = Inl BusClosed"
    by (rule cleanup_closed [OF c'(2)]) (simp add: c'(3) assms(2))
  with c' show "\<exists>c'. cleanup c = Inr c' \<and> \<not> fd_open (bus (pwm c')) \<and>
            (\<forall>ch\<in>{0..15}. \<forall>k\<in>{0..3}.
               regs (bus (pwm c')) (address (pwm c), 6 + 4 * ch + k) = 0) \<and>
            cleanup c' = Inl BusClosed" by blast
next
  from demo_cleanup_open [OF assms(3,4)] obtain d' where
    d': "demo_cleanup d = Inr d'" "\<not> fd_open (bus (demo_pwm d'))"
        "frequency (demo_pwm d') = frequency (demo_pwm d)"
        "\<forall>ch\<in>{0..15}. \<forall>k\<in>{0..3}.
           regs (bus (demo_pwm d')) (address (demo_pwm d), 6 + 4 * ch + k) = 0"
    by blast
  have "demo_cleanup d' = Inl BusClosed"
    by (rule demo_cleanup_closed [OF d'(2)]) (simp add: d'(3) assms(4))
  with d' show "\<exists>d'. demo_cleanup d = Inr d' \<and> \<not> fd_open (bus (demo_pwm d')) \<and>
            (\<forall>ch\<in>{0..15}. \<forall>k\<in>{0..3}.
               regs (bus (demo_pwm d')) (address (demo_pwm d), 6 + 4 * ch + k) = 0) \<and>
            demo_cleanup d' = Inl BusClosed" by blast
qed

theorem cleanup_once_witness:
  "fd_open (bus (pwm car60)) \<and> frequency (pwm car60) \<noteq> 0 \<and>
   fd_open (bus (demo_pwm demo60)) \<and> frequency (demo_pwm demo60) \<noteq> 0 \<and>
   succeeds (cleanup car60) \<and> bindE (cleanup car60) cleanup = Inl BusClosed \<and>
   succeeds (demo_cleanup demo60) \<and> bindE (demo_cleanup demo60) demo_cleanup = Inl BusClosed"
proof -
  have h: "fd_open (bus (pwm car60))" "frequency (pwm car60) \<noteq> 0"
    "fd_open (bus (demo_pwm demo60))" "frequency (demo_pwm demo60) \<noteq> 0"
    by (simp_all add: car60_def demo60_def pwm60_def fresh_bus_def)
  from cleanup_once [OF h] obtain c' d' where
    "cleanup car60 = Inr c'" "cleanup c' = Inl BusClosed"
    "demo_cleanup demo60 = Inr d'" "demo_cleanup d' = Inl BusClosed"
    by blast
  then show ?thesis using h by (simp add: succeeds_def bindE_def)
qed

text \<open>
  The claim as stated (a second call succeeds without error) fails for the controllers
  that the scripts build: the first \<^verbatim>\<open>cleanup\<close> succeeds, the second raises.
\<close>

theorem cleanup_once_counterexample:
  "succeeds (demo_cleanup demo60) \<and> \<not> succeeds (bindE (demo_cleanup demo60) demo_cleanup) \<and>
   succeeds (cleanup car60) \<and> \<not> succeeds (bindE (cleanup car60) cleanup)"
proof -
  have h: "fd_open (bus (pwm car60))" "frequency (pwm car60) \<noteq> 0"
    "fd_open (bus (demo_pwm demo60))" "frequency (demo_pwm demo60) \<noteq> 0"
    by (simp_all add: car60_def demo60_def pwm60_def fresh_bus_def)
  from cleanup_open [OF h(1,2)] obtain c' where
    c': "cleanup car60 = Inr c'" "\<not> fd_open (bus (pwm c'))"
        "frequency (pwm c') = frequency (pwm car60)" by blast
  from demo_cleanup_open [OF h(3,4)] obtain d' where
    d': "demo_cleanup demo60 = Inr d'" "\<not> fd_open (bus (demo_pwm d'))"
        "frequency (demo_pwm d') = frequency (demo_pwm demo60)" by blast
  have "cleanup c' = Inl BusClosed"
    by (rule cleanup_closed [OF c'(2)]) (simp add: c'(3) h(2))
  moreover have "demo_cleanup d' = Inl BusClosed"
    by (rule demo_cleanup_closed [OF d'(2)]) (simp add: d'(3) h(4))
  ultimately show ?thesis using c'(1) d'(1) by (simp add: succeeds_def bindE_def)
qed

subsection \<open>The constructors\<close>

text \<open>
  On an open bus both controllers are built without error, at address \<open>0x40\<close> and 60 Hz,
  and \<^verbatim>\<open>DonkeyCarController.__init__\<close> leaves the calibration that the scenarios of the
  normalized commands assume.
\<close>

lemma DonkeyCarController_new_calibration:
  assumes "fd_open b0"
  shows "\<exists>c. DonkeyCarController_new b0 = Inr c \<and>
           fd_open (bus (pwm c)) \<and> address (pwm c) = 0x40 \<and> frequency (pwm c) = 60 \<and>
           steering_channel c = 0 \<and> steering_center c = dbl 1.8 \<and> steering_range c = 0.5 \<and>
           throttle_channel c = 1 \<and> throttle_neutral c = 1.5 \<and> throttle_range c = dbl 0.4"
proof -
  let ?s0 = "\<lparr>bus = b0, address = 0x40, frequency = 60\<rparr>"
  have o0: "fd_open (bus ?s0)" and f0: "frequency ?s0 \<noteq> 0" using assms by simp_all
  from init_pca9685_open [OF o0 f0] obtain p where
    p: "PCA9685_new b0 0x40 60 = Inr p" "fd_open (bus p)" "address p = 0x40" "frequency p = 60"
    by (auto simp: PCA9685_new_def)
  let ?c0 = "\<lparr>pwm = p, steering_channel = 0, throttle_channel = 1,
               steering_center = dbl 1.8, steering_range = 0.5,
               throttle_neutral = 1.5, throttle_range = dbl 0.4\<rparr>"
  have o1: "fd_open (bus (pwm ?c0))" and f1: "frequency (pwm ?c0) \<noteq> 0" using p by simp_all
  from set_pulse_open [OF o1 f1] obtain p1 where
    p1: "set_pulse (pwm ?c0) (steering_channel ?c0)
           (fadd (steering_center ?c0) (fmul (max (-1) (min 1 0)) (steering_range ?c0))) = Inr p1"
        "fd_open (bus p1)" "address p1 = address (pwm ?c0)" "frequency p1 = frequency (pwm ?c0)"
    by blast
  let ?c1 = "?c0\<lparr>pwm := p1\<rparr>"
  have s: "set_steering ?c0 0 = Inr ?c1"
    using p1(1) by (simp add: set_steering_commands commands_def bindE_def)
  have o2: "fd_open (bus (pwm ?c1))" and f2: "frequency (pwm ?c1) \<noteq> 0" using p p1 by simp_all
  from set_pulse_open [OF o2 f2] obtain p2 where
    p2: "set_pulse (pwm ?c1) (throttle_channel ?c1)
           (fadd (throttle_neutral ?c1) (fmul (max (-1) (min 1 0)) (throttle_range ?c1))) = Inr p2"
        "fd_open (bus p2)" "address p2 = address (pwm ?c1)" "frequency p2 = frequency (pwm ?c1)"
    by blast
  have t: "set_throttle ?c1 0 = Inr (?c1\<lparr>pwm := p2\<rparr>)"
    using p2(1) by (simp add: set_throttle_commands commands_def bindE_def)
  have "DonkeyCarController_new b0 = Inr (?c1\<lparr>pwm := p2\<rparr>)"
    using p(1) s t by (simp add: DonkeyCarController_new_def bindE_def Let_def)
  then show ?thesis using p p1 p2 by simp
qed

lemma PiRacerDemo_new_open:
  assumes "fd_open b0"
  shows "\<exists>d. PiRacerDemo_new b0 = Inr d \<and>
           fd_open (bus (demo_pwm d)) \<and> address (demo_pwm d) = 0x40 \<and>
           frequency (demo_pwm d) = 60"
proof -
  let ?s0 = "\<lparr>bus = b0, address = 0x40, frequency = 60\<rparr>"
  have o0: "fd_open (bus ?s0)" and f0: "frequency ?s0 \<noteq> 0" using assms by simp_all
  from init_pca9685_open [OF o0 f0] obtain p where
    p: "PCA9685_new b0 0x40 60 = Inr p" "fd_open (bus p)" "address p = 0x40" "frequency p = 60"
    by (auto simp: PCA9685_new_def)
  let ?d0 = "\<lparr>demo_pwm = p, demo_steering_channel = 0, demo_throttle_channel = 1,
                demo_steering_center = dbl 1.8, demo_steering_left = dbl 1.55,
                demo_steering_right = dbl 2.05, demo_throttle_neutral = 1.5,
                demo_throttle_slow_forward = dbl 1.67\<rparr>"
  have o1: "fd_open (bus (demo_pwm ?d0))" and f1: "frequency (demo_pwm ?d0) \<noteq> 0"
    using p by simp_all
  from demo_stop_open [OF o1 f1] obtain d where
    "demo_stop ?d0 = Inr d" "fd_open (bus (demo_pwm d))"
    "address (demo_pwm d) = address (demo_pwm ?d0)"
    "frequency (demo_pwm d) = frequency (demo_pwm ?d0)" by blast
  then show ?thesis using p by (simp add: PiRacerDemo_new_def bindE_def)
qed

end
